theory Spec2Isabelle
  imports Complex_Main
begin

section \<open>Least-squares conformal maps: the parameterizer of LSCM\_parameterizer\_3.h\<close>

text \<open>
  The development embeds \<^verbatim>\<open>LSCM_parameterizer_3.h\<close> and \<^verbatim>\<open>parameterize.h\<close>.
  The number type \<^verbatim>\<open>NT\<close> of the kernel is a template parameter. It is modelled by the
  real numbers with exact operations, so \<^verbatim>\<open>std::sqrt\<close> is the real square root;
  \<^verbatim>\<open>project_triangle\<close> is modelled a second time over a number type whose operations
  round their results, as the operations of a floating-point type do.
  C++ \<^verbatim>\<open>int\<close> values (vertex indices, unknown slots, the vertex count) are modelled
  by unbounded integers: the model covers the executions in which no \<^verbatim>\<open>int\<close>
  expression leaves the range of the type.
\<close>

subsection \<open>Faults\<close>

text \<open>
  What aborts a call instead of returning a value: a division by a zero scalar and a
  violated \<^verbatim>\<open>CGAL_assertion\<close>. Both are branches of the model.
\<close>

datatype fault = Division_by_zero | Assertion_violation

subsection \<open>Kernel objects\<close>

type_synonym NT = real

datatype Point_3 = Point_3 (p3x: NT) (p3y: NT) (p3z: NT)

datatype Vector_3 = Vector_3 (v3x: NT) (v3y: NT) (v3z: NT)

datatype Point_2 = Point_2 (p2x: NT) (p2y: NT)

datatype Vector_2 = Vector_2 (v2x: NT) (v2y: NT)

text \<open>
  Modelled from the spec: the kernel operations on points and vectors that
  \<^verbatim>\<open>project_triangle\<close> and \<^verbatim>\<open>setup_triangle_relations\<close> call (their code is
  outside the sources at hand). The spec names them by their usual meaning: the difference
  of two points is a vector (\<open>p1 \<minus> p0\<close>), \<open>\<cdot>\<close> is the scalar product, \<open>\<times>\<close> the cross
  product, and normalising divides a vector by a scalar. Division by the scalar zero is
  a fault.
\<close>

definition minus_Point_3 :: "Point_3 \<Rightarrow> Point_3 \<Rightarrow> Vector_3" where
  "minus_Point_3 p q = Vector_3 (p3x p - p3x q) (p3y p - p3y q) (p3z p - p3z q)"

definition scalar_product :: "Vector_3 \<Rightarrow> Vector_3 \<Rightarrow> NT" where
  "scalar_product v w = v3x v * v3x w + v3y v * v3y w + v3z v * v3z w"

definition cross_product :: "Vector_3 \<Rightarrow> Vector_3 \<Rightarrow> Vector_3" where
  "cross_product v w =
     Vector_3 (v3y v * v3z w - v3z v * v3y w)
              (v3z v * v3x w - v3x v * v3z w)
              (v3x v * v3y w - v3y v * v3x w)"

definition divide_Vector_3 :: "Vector_3 \<Rightarrow> NT \<Rightarrow> fault + Vector_3" where
  "divide_Vector_3 v s =
     (if s = 0 then Inl Division_by_zero
      else Inr (Vector_3 (v3x v / s) (v3y v / s) (v3z v / s)))"

definition minus_Point_2 :: "Point_2 \<Rightarrow> Point_2 \<Rightarrow> Vector_2" where
  "minus_Point_2 p q = Vector_2 (p2x p - p2x q) (p2y p - p2y q)"

subsection \<open>project\_triangle\<close>

text \<open>
  \<^verbatim>\<open>
  Vector_3 X = p1 - p0;
  NT X_norm = std::sqrt(X * X);
  if(X_norm != 0.0) X = X / X_norm;
  Vector_3 Z = CGAL::cross_product(X, p2 - p0);
  NT Z_norm = std::sqrt(Z * Z);
  if(Z_norm != 0.0) Z = Z / Z_norm;
  Vector_3 Y = CGAL::cross_product(Z, X);
  const Point_3& O = p0;
  NT x0 = 0;  NT y0 = 0;
  NT x1 = std::sqrt( (p1 - O)*(p1 - O) );  NT y1 = 0;
  NT x2 = (p2 - O) * X;  NT y2 = (p2 - O) * Y;
  z0 = Point_2(x0, y0);  z1 = Point_2(x1, y1);  z2 = Point_2(x2, y2);
  \<close>
  The three output parameters are returned as a triple; the reference \<^verbatim>\<open>O\<close> is
  written \<open>Origin\<close>.
\<close>

definition project_triangle ::
  "Point_3 \<Rightarrow> Point_3 \<Rightarrow> Point_3 \<Rightarrow> fault + (Point_2 \<times> Point_2 \<times> Point_2)" where
  "project_triangle p0 p1 p2 =
     (let X = minus_Point_3 p1 p0;
          X_norm = sqrt (scalar_product X X)
      in case (if X_norm \<noteq> 0 then divide_Vector_3 X X_norm else Inr X) of
           Inl e \<Rightarrow> Inl e
         | Inr X \<Rightarrow>
             (let Z = cross_product X (minus_Point_3 p2 p0);
                  Z_norm = sqrt (scalar_product Z Z)
              in case (if Z_norm \<noteq> 0 then divide_Vector_3 Z Z_norm else Inr Z) of
                   Inl e \<Rightarrow> Inl e
                 | Inr Z \<Rightarrow>
                     (let Y = cross_product Z X;
                          Origin = p0;
                          x0 = 0;
                          y0 = 0;
                          x1 = sqrt (scalar_product (minus_Point_3 p1 Origin) (minus_Point_3 p1 Origin));
                          y1 = 0;
                          x2 = scalar_product (minus_Point_3 p2 Origin) X;
                          y2 = scalar_product (minus_Point_3 p2 Origin) Y
                      in Inr (Point_2 x0 y0, Point_2 x1 y1, Point_2 x2 y2))))"

text \<open>
  The spec's reading of the same construction (section 4.1), written with total real
  division: the length of a vector and its normalisation, the vector \<open>X\<close>, which is the
  zero vector when \<open>p1 \<minus> p0\<close> has length zero and the normalisation of \<open>p1 \<minus> p0\<close>
  otherwise, the vector \<open>Z\<close>, which is the zero vector when the cross product
  \<open>X \<times> (p2 \<minus> p0)\<close> vanishes and its normalisation otherwise, and \<open>Y = Z \<times> X\<close>.
\<close>

definition length_Vector_3 :: "Vector_3 \<Rightarrow> NT" where
  "length_Vector_3 v = sqrt (scalar_product v v)"

definition normalize_Vector_3 :: "Vector_3 \<Rightarrow> Vector_3" where
  "normalize_Vector_3 v =
     Vector_3 (v3x v / length_Vector_3 v) (v3y v / length_Vector_3 v)
              (v3z v / length_Vector_3 v)"

definition spec_X :: "Point_3 \<Rightarrow> Point_3 \<Rightarrow> Vector_3" where
  "spec_X p0 p1 =
     (if length_Vector_3 (minus_Point_3 p1 p0) = 0 then Vector_3 0 0 0
      else normalize_Vector_3 (minus_Point_3 p1 p0))"

definition spec_Z :: "Point_3 \<Rightarrow> Point_3 \<Rightarrow> Point_3 \<Rightarrow> Vector_3" where
  "spec_Z p0 p1 p2 =
     (if cross_product (spec_X p0 p1) (minus_Point_3 p2 p0) = Vector_3 0 0 0
      then Vector_3 0 0 0
      else normalize_Vector_3 (cross_product (spec_X p0 p1) (minus_Point_3 p2 p0)))"

definition spec_Y :: "Point_3 \<Rightarrow> Point_3 \<Rightarrow> Point_3 \<Rightarrow> Vector_3" where
  "spec_Y p0 p1 p2 = cross_product (spec_Z p0 p1 p2) (spec_X p0 p1)"

subsection \<open>project\_triangle over a number type that rounds\<close>














subsection \<open>The mesh, the property maps and the error codes\<close>

type_synonym vertex_descriptor = nat
type_synonym halfedge_descriptor = nat
type_synonym face_descriptor = nat

text \<open>
  Modelled from the spec: the mesh, an external read-only collaborator (section 3): its
  vertices, the boundary half-edge of a face, the target vertex of a half-edge, the next (\<open>next_halfedge\<close>)
  and the opposite half-edge, the face of a half-edge, the vertices around the face
  of a half-edge, and the position of a vertex (the \<^verbatim>\<open>vertex_point\<close> property map).
  \<open>vertices\<close> lists the vertices in the order in which \<^verbatim>\<open>vertices(mesh)\<close> iterates.
\<close>

record TriangleMesh =
  vertices :: "vertex_descriptor list"
  halfedge :: "face_descriptor \<Rightarrow> halfedge_descriptor"
  target :: "halfedge_descriptor \<Rightarrow> vertex_descriptor"
  next_halfedge :: "halfedge_descriptor \<Rightarrow> halfedge_descriptor"
  opposite :: "halfedge_descriptor \<Rightarrow> halfedge_descriptor"
  face :: "halfedge_descriptor \<Rightarrow> face_descriptor"
  vertices_around_face :: "halfedge_descriptor \<Rightarrow> vertex_descriptor list"
  vertex_point :: "vertex_descriptor \<Rightarrow> Point_3"

definition num_vertices :: "TriangleMesh \<Rightarrow> int" where
  "num_vertices mesh = int (length (vertices mesh))"

text \<open>
  Modelled from the spec: the error codes of \<^verbatim>\<open>Parameterizer_traits_3\<close> (section 7).
  The sources name \<^verbatim>\<open>OK\<close> and \<^verbatim>\<open>ERROR_CANNOT_SOLVE_LINEAR_SYSTEM\<close>; every other code
  of the enumeration (a border-parameterization failure, a per-triangle failure) is
  \<open>ERROR_OTHER\<close> with its number.
\<close>

datatype Error_code = OK | ERROR_CANNOT_SOLVE_LINEAR_SYSTEM | ERROR_OTHER nat

text \<open>
  The UV map and the vertex index map are template parameters read with \<^verbatim>\<open>get\<close> and
  written with \<^verbatim>\<open>put\<close>: total functions on the vertices, \<^verbatim>\<open>put\<close> being the function
  update.
\<close>

type_synonym VertexUVmap = "vertex_descriptor \<Rightarrow> Point_2"
type_synonym VertexIndexMap = "vertex_descriptor \<Rightarrow> int"

subsection \<open>internal::Bool\_property\_map\<close>

text \<open>
  \<^verbatim>\<open>
  friend value_type get(const Self& pm, const key_type& k)
  { return pm.m_s->find(k) != pm.m_s->end(); }
  friend void put(const Self& pm, key_type& k, const value_type& v)
  { if(v){ pm.m_s->insert(k); } else { pm.m_s->erase(k); } }
  Bool_property_map(S& s) : m_s(&s) { }
  \<close>
  The map is a handle on a set of vertices; the model holds the set itself and \<open>put\<close>
  returns the updated map.
\<close>

datatype Bool_property_map = Bool_property_map (m_s: "vertex_descriptor set")

definition get_Bool :: "Bool_property_map \<Rightarrow> vertex_descriptor \<Rightarrow> bool" where
  "get_Bool pm k = (k \<in> m_s pm)"

definition put_Bool :: "Bool_property_map \<Rightarrow> vertex_descriptor \<Rightarrow> bool \<Rightarrow> Bool_property_map" where
  "put_Bool pm k v =
     (if v then Bool_property_map (insert k (m_s pm))
      else Bool_property_map (m_s pm - {k}))"

subsection \<open>The least-squares solver\<close>

text \<open>
  Modelled from the spec: the sparse least-squares solver (\<^verbatim>\<open>OpenNL::LinearSolver\<close>),
  an external collaborator consumed through the interface of section 6:
  \<^verbatim>\<open>construct(size)\<close>, \<^verbatim>\<open>set_least_squares(true)\<close>, \<^verbatim>\<open>begin_system()/end_system()\<close>,
  per row \<^verbatim>\<open>begin_row()/add_coefficient(unknown_index, coefficient)/end_row()\<close>,
  \<^verbatim>\<open>variable(i).set_value(v)\<close>, \<^verbatim>\<open>variable(i).lock()\<close>, \<^verbatim>\<open>variable(i).value()\<close> and
  \<^verbatim>\<open>solve()\<close>. Following section 3, the system has a number of scalar unknowns, each
  with a value and either locked or free, and a growable list of rows, each a list of
  (unknown index, coefficient) pairs. A freshly constructed system has every unknown
  free, no row, and least-squares mode off. \<open>history\<close> records the interface calls in
  the order in which they were made.
\<close>

datatype solver_call =
    Call_construct int
  | Call_set_least_squares bool
  | Call_set_value int NT
  | Call_lock int
  | Call_begin_system
  | Call_begin_row
  | Call_add_coefficient int NT
  | Call_end_row
  | Call_end_system
  | Call_solve

record LeastSquaresSolver =
  nb_variables :: int
  least_squares :: bool
  variable_value :: "int \<Rightarrow> NT"
  variable_locked :: "int \<Rightarrow> bool"
  current_row :: "(int \<times> NT) list"
  rows :: "(int \<times> NT) list list"
  history :: "solver_call list"

definition construct_solver :: "int \<Rightarrow> LeastSquaresSolver" where
  "construct_solver n =
     \<lparr>nb_variables = n, least_squares = False,
      variable_value = (\<lambda>i. 0), variable_locked = (\<lambda>i. False),
      current_row = [], rows = [], history = [Call_construct n]\<rparr>"

definition set_least_squares :: "LeastSquaresSolver \<Rightarrow> bool \<Rightarrow> LeastSquaresSolver" where
  "set_least_squares s b =
     s\<lparr>least_squares := b, history := history s @ [Call_set_least_squares b]\<rparr>"

definition set_value :: "LeastSquaresSolver \<Rightarrow> int \<Rightarrow> NT \<Rightarrow> LeastSquaresSolver" where
  "set_value s i v =
     s\<lparr>variable_value := (variable_value s)(i := v),
       history := history s @ [Call_set_value i v]\<rparr>"

definition lock :: "LeastSquaresSolver \<Rightarrow> int \<Rightarrow> LeastSquaresSolver" where
  "lock s i =
     s\<lparr>variable_locked := (variable_locked s)(i := True),
       history := history s @ [Call_lock i]\<rparr>"

definition begin_system :: "LeastSquaresSolver \<Rightarrow> LeastSquaresSolver" where
  "begin_system s = s\<lparr>history := history s @ [Call_begin_system]\<rparr>"

definition end_system :: "LeastSquaresSolver \<Rightarrow> LeastSquaresSolver" where
  "end_system s = s\<lparr>history := history s @ [Call_end_system]\<rparr>"

definition begin_row :: "LeastSquaresSolver \<Rightarrow> LeastSquaresSolver" where
  "begin_row s = s\<lparr>current_row := [], history := history s @ [Call_begin_row]\<rparr>"

definition add_coefficient :: "LeastSquaresSolver \<Rightarrow> int \<Rightarrow> NT \<Rightarrow> LeastSquaresSolver" where
  "add_coefficient s i a =
     s\<lparr>current_row := current_row s @ [(i, a)],
       history := history s @ [Call_add_coefficient i a]\<rparr>"

definition end_row :: "LeastSquaresSolver \<Rightarrow> LeastSquaresSolver" where
  "end_row s =
     s\<lparr>rows := rows s @ [current_row s], current_row := [],
       history := history s @ [Call_end_row]\<rparr>"

text \<open>
  What \<^verbatim>\<open>solve()\<close> computes is the backend's business: the parameterizer is given the
  backend as a function from the assembled system to the success flag and the values of
  the unknowns after the call.
\<close>

type_synonym Solve = "LeastSquaresSolver \<Rightarrow> bool \<times> (int \<Rightarrow> NT)"

definition solve :: "Solve \<Rightarrow> LeastSquaresSolver \<Rightarrow> bool \<times> LeastSquaresSolver" where
  "solve backend s =
     (case backend s of
        (ok, x) \<Rightarrow> (ok, s\<lparr>variable_value := x, history := history s @ [Call_solve]\<rparr>))"

subsection \<open>initialize\_system\_from\_mesh\_border\<close>

text \<open>
  \<^verbatim>\<open>
  BOOST_FOREACH(vertex_descriptor v, vertices(mesh)){
    int index = get(vimap, v);
    Point_2 uv = get(uvmap, v);
    solver.variable(2 * index    ).set_value(uv.x());
    solver.variable(2 * index + 1).set_value(uv.y());
    if (get(vpmap,v)) {
      solver.variable(2 * index    ).lock();
      solver.variable(2 * index + 1).lock();
    }
  }
  \<close>
  \<open>initialize_vertex\<close> is the body of the loop.
\<close>

definition initialize_vertex ::
  "VertexUVmap \<Rightarrow> VertexIndexMap \<Rightarrow> Bool_property_map \<Rightarrow>
   LeastSquaresSolver \<Rightarrow> vertex_descriptor \<Rightarrow> LeastSquaresSolver" where
  "initialize_vertex uvmap vimap vpmap solver v =
     (let index = vimap v;
          uv = uvmap v;
          solver = set_value solver (2 * index) (p2x uv);
          solver = set_value solver (2 * index + 1) (p2y uv)
      in if get_Bool vpmap v
         then (let solver = lock solver (2 * index);
                   solver = lock solver (2 * index + 1)
               in solver)
         else solver)"

definition initialize_system_from_mesh_border ::
  "LeastSquaresSolver \<Rightarrow> TriangleMesh \<Rightarrow> VertexUVmap \<Rightarrow> VertexIndexMap \<Rightarrow>
   Bool_property_map \<Rightarrow> LeastSquaresSolver" where
  "initialize_system_from_mesh_border solver mesh uvmap vimap vpmap =
     foldl (initialize_vertex uvmap vimap vpmap) solver (vertices mesh)"

subsection \<open>setup\_triangle\_relations\<close>

text \<open>
  \<^verbatim>\<open>
  halfedge_descriptor h0 = halfedge(facet, mesh);  v0 = target(h0, mesh);
  halfedge_descriptor h1 = next(h0, mesh);         v1 = target(h1, mesh);
  halfedge_descriptor h2 = next(h1, mesh);         v2 = target(h2, mesh);
  int id0 = get(vimap, v0);  int id1 = get(vimap, v1);  int id2 = get(vimap, v2);
  const Point_3& p0 = get(ppmap, v0);  ... p1 ... p2
  Point_2 z0, z1, z2;
  project_triangle(p0, p1, p2, z0, z1, z2);
  Vector_2 z01 = z1 - z0;  Vector_2 z02 = z2 - z0;
  NT a = z01.x();  NT b = z01.y();  NT c = z02.x();  NT d = z02.y();
  CGAL_assertion(b == 0.0);
  int u0_id = 2*id0;  int v0_id = 2*id0 + 1;
  int u1_id = 2*id1;  int v1_id = 2*id1 + 1;
  int u2_id = 2*id2;  int v2_id = 2*id2 + 1;
  solver.begin_row();
  solver.add_coefficient(u0_id, -a+c);  solver.add_coefficient(v0_id,  b-d);
  solver.add_coefficient(u1_id,   -c);  solver.add_coefficient(v1_id,    d);
  solver.add_coefficient(u2_id,    a);
  solver.end_row();
  solver.begin_row();
  solver.add_coefficient(u0_id, -b+d);  solver.add_coefficient(v0_id, -a+c);
  solver.add_coefficient(u1_id,   -d);  solver.add_coefficient(v1_id,   -c);
  solver.add_coefficient(v2_id,    a);
  solver.end_row();
  return Base::OK;
  \<close>
  The three vertices of the facet, in the order in which the function reads them:
\<close>

definition facet_vertices ::
  "TriangleMesh \<Rightarrow> face_descriptor \<Rightarrow> vertex_descriptor \<times> vertex_descriptor \<times> vertex_descriptor" where
  "facet_vertices mesh facet =
     (let h0 = halfedge mesh facet;
          v0 = target mesh h0;
          h1 = next_halfedge mesh h0;
          v1 = target mesh h1;
          h2 = next_halfedge mesh h1;
          v2 = target mesh h2
      in (v0, v1, v2))"

definition setup_triangle_relations ::
  "LeastSquaresSolver \<Rightarrow> TriangleMesh \<Rightarrow> face_descriptor \<Rightarrow> VertexIndexMap \<Rightarrow>
   fault + (Error_code \<times> LeastSquaresSolver)" where
  "setup_triangle_relations solver mesh facet vimap =
     (let ppmap = vertex_point mesh
      in case facet_vertices mesh facet of
        (v0, v1, v2) \<Rightarrow>
          (let id0 = vimap v0;
               id1 = vimap v1;
               id2 = vimap v2;
               p0 = ppmap v0;
               p1 = ppmap v1;
               p2 = ppmap v2
           in case project_triangle p0 p1 p2 of
                Inl e \<Rightarrow> Inl e
              | Inr (z0, z1, z2) \<Rightarrow>
                  (let z01 = minus_Point_2 z1 z0;
                       z02 = minus_Point_2 z2 z0;
                       a = v2x z01;
                       b = v2y z01;
                       c = v2x z02;
                       d = v2y z02
                   in if \<not> (b = 0) then Inl Assertion_violation
                      else
                        (let u0_id = 2 * id0;
                             v0_id = 2 * id0 + 1;
                             u1_id = 2 * id1;
                             v1_id = 2 * id1 + 1;
                             u2_id = 2 * id2;
                             v2_id = 2 * id2 + 1;
                             solver = begin_row solver;
                             solver = add_coefficient solver u0_id (- a + c);
                             solver = add_coefficient solver v0_id (b - d);
                             solver = add_coefficient solver u1_id (- c);
                             solver = add_coefficient solver v1_id d;
                             solver = add_coefficient solver u2_id a;
                             solver = end_row solver;
                             solver = begin_row solver;
                             solver = add_coefficient solver u0_id (- b + d);
                             solver = add_coefficient solver v0_id (- a + c);
                             solver = add_coefficient solver u1_id (- d);
                             solver = add_coefficient solver v1_id (- c);
                             solver = add_coefficient solver v2_id a;
                             solver = end_row solver
                         in Inr (OK, solver)))))"

text \<open>
  The two rows as the spec lists them (section 4.2), for the indices \<open>id0\<close>, \<open>id1\<close>,
  \<open>id2\<close> and the numbers \<open>a\<close>, \<open>c\<close>, \<open>d\<close>; slot \<open>2\<cdot>id\<close> is \<open>u(id)\<close> and slot
  \<open>2\<cdot>id + 1\<close> is \<open>v(id)\<close>.
\<close>

definition slot_u :: "int \<Rightarrow> int" where
  "slot_u i = 2 * i"

definition slot_v :: "int \<Rightarrow> int" where
  "slot_v i = 2 * i + 1"

definition spec_real_row :: "int \<Rightarrow> int \<Rightarrow> int \<Rightarrow> NT \<Rightarrow> NT \<Rightarrow> NT \<Rightarrow> (int \<times> NT) list" where
  "spec_real_row id0 id1 id2 a c d =
     [(slot_u id0, - a + c), (slot_v id0, - d), (slot_u id1, - c), (slot_v id1, d),
      (slot_u id2, a)]"

definition spec_imaginary_row :: "int \<Rightarrow> int \<Rightarrow> int \<Rightarrow> NT \<Rightarrow> NT \<Rightarrow> NT \<Rightarrow> (int \<times> NT) list" where
  "spec_imaginary_row id0 id1 id2 a c d =
     [(slot_u id0, d), (slot_v id0, - a + c), (slot_u id1, - d), (slot_v id1, - c),
      (slot_v id2, a)]"

subsection \<open>LSCM\_parameterizer\_3::parameterize\<close>

text \<open>
  The border parameterizer and the connected-component enumerator are external
  collaborators, given to the orchestrator as functions. The border parameterizer
  returns its error code together with the UV map and the pinned-flag map as it left
  them; the enumerator returns the faces of the component of a seed face in the order
  in which it outputs them.
\<close>

type_synonym Border_param =
  "TriangleMesh \<Rightarrow> halfedge_descriptor \<Rightarrow> VertexUVmap \<Rightarrow> Bool_property_map \<Rightarrow>
   Error_code \<times> VertexUVmap \<times> Bool_property_map"

type_synonym Connected_component = "face_descriptor \<Rightarrow> TriangleMesh \<Rightarrow> face_descriptor list"

text \<open>
  Modelled from the spec: \<^verbatim>\<open>Containers_filler\<close>, the output functor that receives the
  faces of the component (section 4.4: the enumeration yields the faces "and implicitly
  their vertices"). It appends each face to \<^verbatim>\<open>ccfaces\<close> and inserts the vertices around
  the face into the set \<^verbatim>\<open>ccvertices\<close>. The set is given as the list of its elements,
  each once; the order in which the set is iterated has no influence on the write-back
  loop, whose result depends on the set of the visited vertices only.
\<close>

definition Containers_filler ::
  "TriangleMesh \<Rightarrow> face_descriptor list \<Rightarrow> face_descriptor list \<times> vertex_descriptor list" where
  "Containers_filler mesh fds =
     (fds, remdups (concat (map (\<lambda>fd. vertices_around_face mesh (halfedge mesh fd)) fds)))"

text \<open>
  \<^verbatim>\<open>
  BOOST_FOREACH(face_descriptor fd, ccfaces){
    status = setup_triangle_relations(solver, mesh, fd, vimap);
    if (status != Base::OK)
      return status;
  }
  \<close>
  The loop either leaves the function with a status (\<open>Loop_return\<close>) or runs to its
  end (\<open>Loop_done\<close>); the per-triangle step is an argument, instantiated below with
  \<open>setup_triangle_relations\<close>.
\<close>

datatype loop_result =
    Loop_return Error_code LeastSquaresSolver
  | Loop_done Error_code LeastSquaresSolver

fun foreach_face ::
  "(LeastSquaresSolver \<Rightarrow> face_descriptor \<Rightarrow> fault + (Error_code \<times> LeastSquaresSolver)) \<Rightarrow>
   Error_code \<Rightarrow> LeastSquaresSolver \<Rightarrow> face_descriptor list \<Rightarrow> fault + loop_result" where
  "foreach_face step status solver [] = Inr (Loop_done status solver)"
| "foreach_face step status solver (fd # fds) =
     (case step solver fd of
        Inl e \<Rightarrow> Inl e
      | Inr (status', solver') \<Rightarrow>
          if status' \<noteq> OK then Inr (Loop_return status' solver')
          else foreach_face step status' solver' fds)"

text \<open>
  \<^verbatim>\<open>
  BOOST_FOREACH(vertex_descriptor vd, ccvertices){
    int index = get(vimap,vd);
    NT u = solver.variable(2 * index).value();
    NT v = solver.variable(2 * index + 1).value();
    put(uvmap, vd, Point_2(u,v));
  }
  \<close>
\<close>

definition write_back ::
  "LeastSquaresSolver \<Rightarrow> VertexIndexMap \<Rightarrow> VertexUVmap \<Rightarrow> vertex_descriptor \<Rightarrow> VertexUVmap" where
  "write_back solver vimap uvmap vd =
     (let index = vimap vd;
          u = variable_value solver (2 * index);
          v = variable_value solver (2 * index + 1)
      in uvmap(vd := Point_2 u v))"

text \<open>
  What a call leaves behind: the returned status, the UV map and the pinned-flag map
  (both shared with the caller), and the local solver, if one was constructed, as it
  was when the function returned.
\<close>

record Outcome =
  returned :: Error_code
  uvmap_after :: VertexUVmap
  vpmap_after :: Bool_property_map
  solver_after :: "LeastSquaresSolver option"

text \<open>
  \<^verbatim>\<open>
  int nbVertices = num_vertices(mesh);
  Error_code status = get_border_parameterizer().parameterize_border(mesh,bhd,uvmap,vpmap);
  if(status != Base::OK) return status;
  LeastSquaresSolver solver(2 * nbVertices);
  solver.set_least_squares(true);
  initialize_system_from_mesh_border(solver, mesh, uvmap, vimap, vpmap);
  solver.begin_system();
  ... fc(mesh, ccfaces, ccvertices);
  connected_component(face(opposite(bhd,mesh),mesh), mesh, ...(fc));
  BOOST_FOREACH(face_descriptor fd, ccfaces){ ... }
  solver.end_system();
  if(! solver.solve()) status = Base::ERROR_CANNOT_SOLVE_LINEAR_SYSTEM;
  if(status != Base::OK) return status;
  BOOST_FOREACH(vertex_descriptor vd, ccvertices){ ... }
  return status;
  \<close>
  The body is written once, with the function that the loop calls for each face as its
  first argument; \<open>LSCM_parameterize\<close>, the member function, is the body with
  \<open>setup_triangle_relations\<close> in that place.
\<close>

type_synonym Triangle_relations =
  "LeastSquaresSolver \<Rightarrow> TriangleMesh \<Rightarrow> face_descriptor \<Rightarrow> VertexIndexMap \<Rightarrow>
   fault + (Error_code \<times> LeastSquaresSolver)"

definition LSCM_parameterize_with ::
  "Triangle_relations \<Rightarrow> Border_param \<Rightarrow> Connected_component \<Rightarrow> Solve \<Rightarrow>
   TriangleMesh \<Rightarrow> halfedge_descriptor \<Rightarrow> VertexUVmap \<Rightarrow> VertexIndexMap \<Rightarrow>
   Bool_property_map \<Rightarrow> fault + Outcome" where
  "LSCM_parameterize_with triangle_relations parameterize_border connected_component backend
       mesh bhd uvmap vimap vpmap =
     (let nbVertices = num_vertices mesh
      in case parameterize_border mesh bhd uvmap vpmap of
        (status, uvmap, vpmap) \<Rightarrow>
          if status \<noteq> OK
          then Inr \<lparr>returned = status, uvmap_after = uvmap, vpmap_after = vpmap,
                    solver_after = None\<rparr>
          else
            (let solver = construct_solver (2 * nbVertices);
                 solver = set_least_squares solver True;
                 solver = initialize_system_from_mesh_border solver mesh uvmap vimap vpmap;
                 solver = begin_system solver
             in case Containers_filler mesh
                       (connected_component (face mesh (opposite mesh bhd)) mesh) of
               (ccfaces, ccvertices) \<Rightarrow>
                 (case foreach_face (\<lambda>solver fd. triangle_relations solver mesh fd vimap)
                         status solver ccfaces of
                    Inl e \<Rightarrow> Inl e
                  | Inr (Loop_return status solver) \<Rightarrow>
                      Inr \<lparr>returned = status, uvmap_after = uvmap, vpmap_after = vpmap,
                           solver_after = Some solver\<rparr>
                  | Inr (Loop_done status solver) \<Rightarrow>
                      (let solver = end_system solver
                       in case solve backend solver of
                         (solved, solver) \<Rightarrow>
                           (let status =
                                  (if \<not> solved then ERROR_CANNOT_SOLVE_LINEAR_SYSTEM
                                   else status)
                            in if status \<noteq> OK
                               then Inr \<lparr>returned = status, uvmap_after = uvmap,
                                         vpmap_after = vpmap, solver_after = Some solver\<rparr>
                               else
                                 (let uvmap = foldl (write_back solver vimap) uvmap ccvertices
                                  in Inr \<lparr>returned = status, uvmap_after = uvmap,
                                          vpmap_after = vpmap,
                                          solver_after = Some solver\<rparr>))))))"

definition LSCM_parameterize ::
  "Border_param \<Rightarrow> Connected_component \<Rightarrow> Solve \<Rightarrow>
   TriangleMesh \<Rightarrow> halfedge_descriptor \<Rightarrow> VertexUVmap \<Rightarrow> VertexIndexMap \<Rightarrow>
   Bool_property_map \<Rightarrow> fault + Outcome" where
  "LSCM_parameterize = LSCM_parameterize_with setup_triangle_relations"

subsection \<open>parameterize.h: the index functor and the entry point\<close>

text \<open>
  \<^verbatim>\<open>
  struct Vertices {
    Vertices(const Mesh& mesh, Map& map) : mesh(mesh), map(&map), index(0) { }
    void operator()(const face_descriptor& fd)
    {
      BOOST_FOREACH(vertex_descriptor vd, vertices_around_face(halfedge(fd,mesh),mesh)){
        typename Map::iterator it;
        bool new_element;
        boost::tie(it,new_element) = map->insert(std::make_pair(vd,1));
        if(new_element){ it->second = index++; }
      }
    }
    const Mesh& mesh;  mutable Map* map;  int index;
  };
  \<close>
  The unordered map is a partial function from vertices to integers. \<open>insert_pair\<close>
  is the map's \<^verbatim>\<open>insert\<close>: it stores the pair and reports \<open>True\<close> only when the key
  was absent. The functor's state is the map it points to and its counter.
\<close>

type_synonym Indices = "vertex_descriptor \<rightharpoonup> int"

definition insert_pair :: "Indices \<Rightarrow> vertex_descriptor \<times> int \<Rightarrow> Indices \<times> bool" where
  "insert_pair m kv =
     (case m (fst kv) of
        None \<Rightarrow> (m(fst kv \<mapsto> snd kv), True)
      | Some _ \<Rightarrow> (m, False))"

record Vertices =
  Vertices_map :: Indices
  Vertices_index :: int

definition Vertices_init :: "Indices \<Rightarrow> Vertices" where
  "Vertices_init m = \<lparr>Vertices_map = m, Vertices_index = 0\<rparr>"

definition Vertices_visit :: "Vertices \<Rightarrow> vertex_descriptor \<Rightarrow> Vertices" where
  "Vertices_visit s vd =
     (case insert_pair (Vertices_map s) (vd, 1) of
        (m, new_element) \<Rightarrow>
          if new_element
          then \<lparr>Vertices_map = m(vd \<mapsto> Vertices_index s),
                Vertices_index = Vertices_index s + 1\<rparr>
          else \<lparr>Vertices_map = m, Vertices_index = Vertices_index s\<rparr>)"

definition Vertices_call :: "TriangleMesh \<Rightarrow> Vertices \<Rightarrow> face_descriptor \<Rightarrow> Vertices" where
  "Vertices_call mesh s fd =
     foldl Vertices_visit s (vertices_around_face mesh (halfedge mesh fd))"

text \<open>
  \<^verbatim>\<open>boost::make_assoc_property_map(indices)\<close>: reading a key goes through the map's
  \<^verbatim>\<open>operator[]\<close>, which yields the stored integer, and the value-initialised integer
  \<open>0\<close> for a key that is absent.
\<close>

definition make_assoc_property_map :: "Indices \<Rightarrow> VertexIndexMap" where
  "make_assoc_property_map m = (\<lambda>k. case m k of Some i \<Rightarrow> i | None \<Rightarrow> 0)"

text \<open>
  \<^verbatim>\<open>
  Indices indices;
  boost::unordered_set<vertex_descriptor> vs;
  internal::Bool_property_map<boost::unordered_set<vertex_descriptor> > vpm(vs);
  CGAL::Polygon_mesh_processing::connected_component(face(opposite(bhd,mesh),mesh), mesh,
      boost::make_function_output_iterator(
          Parameterization::Vertices<TriangleMesh,Indices>(mesh,indices)));
  return parameterizer.parameterize(mesh, bhd, uvm,
                                    boost::make_assoc_property_map(indices), vpm);
  \<close>
  \<open>output_faces\<close> is the functor, constructed on a map, receiving the faces that the
  enumerator outputs, one call per face in output order; the parameterizer is an
  argument of the entry point.
\<close>

definition output_faces :: "TriangleMesh \<Rightarrow> Indices \<Rightarrow> face_descriptor list \<Rightarrow> Vertices" where
  "output_faces mesh m fds = foldl (Vertices_call mesh) (Vertices_init m) fds"

definition parameterize ::
  "Connected_component \<Rightarrow>
   (TriangleMesh \<Rightarrow> halfedge_descriptor \<Rightarrow> VertexUVmap \<Rightarrow> VertexIndexMap \<Rightarrow>
    Bool_property_map \<Rightarrow> 'r) \<Rightarrow>
   TriangleMesh \<Rightarrow> halfedge_descriptor \<Rightarrow> VertexUVmap \<Rightarrow> 'r" where
  "parameterize connected_component parameterizer mesh bhd uvm =
     (let indices = Map.empty;
          vs = {};
          vpm = Bool_property_map vs;
          indices = Vertices_map
                      (output_faces mesh indices
                         (connected_component (face mesh (opposite mesh bhd)) mesh))
      in parameterizer mesh bhd uvm (make_assoc_property_map indices) vpm)"

section \<open>Notions used in the statements\<close>

text \<open>
  The interface calls that assemble one row: \<^verbatim>\<open>begin_row\<close>, one \<^verbatim>\<open>add_coefficient\<close>
  for each entry of the row in order, \<^verbatim>\<open>end_row\<close>. \<open>with_rows s rs\<close> is the system
  \<open>s\<close> after the rows \<open>rs\<close> were assembled in this way.
\<close>

definition row_calls :: "(int \<times> NT) list \<Rightarrow> solver_call list" where
  "row_calls r =
     [Call_begin_row] @ map (\<lambda>(i, a). Call_add_coefficient i a) r @ [Call_end_row]"

definition with_rows :: "LeastSquaresSolver \<Rightarrow> (int \<times> NT) list list \<Rightarrow> LeastSquaresSolver" where
  "with_rows s rs =
     s\<lparr>current_row := [], rows := rows s @ rs,
       history := history s @ concat (map row_calls rs)\<rparr>"

text \<open>
  The two rows of a facet according to the spec: the rows of section 4.2 for the indices
  of the three vertices of the facet and for \<open>a = \<parallel>p1 \<minus> p0\<parallel>\<close>, \<open>c = (p2 \<minus> p0) \<cdot> X\<close>,
  \<open>d = (p2 \<minus> p0) \<cdot> Y\<close>.
\<close>

definition facet_rows ::
  "TriangleMesh \<Rightarrow> VertexIndexMap \<Rightarrow> face_descriptor \<Rightarrow> (int \<times> NT) list list" where
  "facet_rows mesh vimap facet =
     (case facet_vertices mesh facet of
        (v0, v1, v2) \<Rightarrow>
          (let p0 = vertex_point mesh v0;
               p1 = vertex_point mesh v1;
               p2 = vertex_point mesh v2;
               a = length_Vector_3 (minus_Point_3 p1 p0);
               c = scalar_product (minus_Point_3 p2 p0) (spec_X p0 p1);
               d = scalar_product (minus_Point_3 p2 p0) (spec_Y p0 p1 p2)
           in [spec_real_row (vimap v0) (vimap v1) (vimap v2) a c d,
               spec_imaginary_row (vimap v0) (vimap v1) (vimap v2) a c d]))"

text \<open>
  The interface calls the spec prescribes for one vertex in the border initializer
  (section 4.3): write \<open>u\<close> into slot \<open>2\<cdot>index(v)\<close> and \<open>v\<close> into slot
  \<open>2\<cdot>index(v) + 1\<close>, then lock both slots if the vertex is pinned.
\<close>

definition spec_vertex_calls ::
  "VertexUVmap \<Rightarrow> VertexIndexMap \<Rightarrow> Bool_property_map \<Rightarrow> vertex_descriptor \<Rightarrow> solver_call list" where
  "spec_vertex_calls uvmap vimap vpmap v =
     [Call_set_value (slot_u (vimap v)) (p2x (uvmap v)),
      Call_set_value (slot_v (vimap v)) (p2y (uvmap v))] @
     (if get_Bool vpmap v then [Call_lock (slot_u (vimap v)), Call_lock (slot_v (vimap v))]
      else [])"

text \<open>
  The faces and the vertices of the component that the orchestrator enumerates: the
  faces output for the seed face \<^verbatim>\<open>face(opposite(bhd,mesh),mesh)\<close>, and the vertices around
  these faces.
\<close>

definition component_faces ::
  "Connected_component \<Rightarrow> TriangleMesh \<Rightarrow> halfedge_descriptor \<Rightarrow> face_descriptor list" where
  "component_faces connected_component mesh bhd =
     connected_component (face mesh (opposite mesh bhd)) mesh"

definition component_vertices ::
  "Connected_component \<Rightarrow> TriangleMesh \<Rightarrow> halfedge_descriptor \<Rightarrow> vertex_descriptor set" where
  "component_vertices connected_component mesh bhd =
     (\<Union>fd \<in> set (component_faces connected_component mesh bhd).
        set (vertices_around_face mesh (halfedge mesh fd)))"

text \<open>
  The system as the loop over the faces finds it: constructed with \<open>2n\<close> unknowns,
  switched to least-squares mode, initialized from the border, opened. And the system at
  the moment \<^verbatim>\<open>solve()\<close> is called when every face was assembled: the former, given the
  rows of the faces of the component, closed.
\<close>

definition initialized_system ::
  "TriangleMesh \<Rightarrow> VertexUVmap \<Rightarrow> VertexIndexMap \<Rightarrow> Bool_property_map \<Rightarrow> LeastSquaresSolver" where
  "initialized_system mesh uvmap vimap vpmap =
     begin_system
       (initialize_system_from_mesh_border
          (set_least_squares (construct_solver (2 * num_vertices mesh)) True)
          mesh uvmap vimap vpmap)"

definition assembled_system ::
  "Connected_component \<Rightarrow> TriangleMesh \<Rightarrow> halfedge_descriptor \<Rightarrow> VertexUVmap \<Rightarrow>
   VertexIndexMap \<Rightarrow> Bool_property_map \<Rightarrow> LeastSquaresSolver" where
  "assembled_system connected_component mesh bhd uvmap vimap vpmap =
     end_system
       (with_rows (initialized_system mesh uvmap vimap vpmap)
          (concat (map (facet_rows mesh vimap) (component_faces connected_component mesh bhd))))"

text \<open>
  The elements of a list in the order of their first occurrence, each once.
\<close>

definition first_encounter :: "'a list \<Rightarrow> 'a list" where
  "first_encounter xs = rev (remdups (rev xs))"

section \<open>Concrete data\<close>

text \<open>
  A mesh with two components, on which the statements below are evaluated. The first
  component has the faces \<open>0\<close> and \<open>1\<close> with the vertices \<open>(2, 0, 1)\<close> and
  \<open>(1, 0, 3)\<close>; the second has the face \<open>2\<close> with the vertices \<open>(4, 5, 6)\<close>, which
  lie on one point (a triangle of area zero). Face \<open>f\<close> has the half-edges \<open>3f\<close>,
  \<open>3f + 1\<close>, \<open>3f + 2\<close>; half-edge \<open>9\<close> is the border half-edge opposite to half-edge
  \<open>0\<close>.
\<close>

definition example_target :: "halfedge_descriptor \<Rightarrow> vertex_descriptor" where
  "example_target h = [2, 0, 1, 1, 0, 3, 4, 5, 6, 1] ! (if h < 10 then h else 0)"

definition example_next :: "halfedge_descriptor \<Rightarrow> halfedge_descriptor" where
  "example_next h = 3 * (h div 3) + (h + 1) mod 3"

definition example_point :: "vertex_descriptor \<Rightarrow> Point_3" where
  "example_point v =
     (if v = 0 then Point_3 2 0 0
      else if v = 1 then Point_3 2 3 0
      else if v = 2 then Point_3 0 0 0
      else if v = 3 then Point_3 4 0 0
      else Point_3 5 5 5)"

definition example_mesh :: TriangleMesh where
  "example_mesh =
     \<lparr>vertices = [0, 1, 2, 3, 4, 5, 6],
      halfedge = (\<lambda>f. 3 * f),
      target = example_target,
      next_halfedge = example_next,
      opposite = (\<lambda>h. if h = 9 then 0 else if h = 0 then 9 else h),
      face = (\<lambda>h. h div 3),
      vertices_around_face =
        (\<lambda>h. [example_target h, example_target (example_next h),
              example_target (example_next (example_next h))]),
      vertex_point = example_point\<rparr>"

definition example_component :: Connected_component where
  "example_component seed mesh = (if seed = 2 then [2] else [0, 1])"

definition example_uvmap :: VertexUVmap where
  "example_uvmap v = Point_2 (of_nat v) 7"

definition example_vimap :: VertexIndexMap where
  "example_vimap v = int v"

text \<open>
  Two border parameterizers: one that fails with code \<open>4\<close> and touches nothing, one
  that pins the vertices \<open>2\<close> and \<open>0\<close> at \<open>(0, 0)\<close> and \<open>(1, 0)\<close>. A per-face
  function that rejects face \<open>1\<close> with code \<open>2\<close> and treats every other face as
  \<open>setup_triangle_relations\<close> does. Two solver backends: one that reports failure, one
  that reports success with the value \<open>i\<close> for the unknown \<open>i\<close>.
\<close>

definition failing_border :: Border_param where
  "failing_border mesh bhd uvmap vpmap = (ERROR_OTHER 4, uvmap, vpmap)"

definition two_vertices_border :: Border_param where
  "two_vertices_border mesh bhd uvmap vpmap =
     (OK, uvmap(2 := Point_2 0 0, 0 := Point_2 1 0),
      put_Bool (put_Bool vpmap 2 True) 0 True)"

definition rejecting_relations :: Triangle_relations where
  "rejecting_relations solver mesh facet vimap =
     (if facet = 1 then Inr (ERROR_OTHER 2, solver)
      else setup_triangle_relations solver mesh facet vimap)"

definition failing_backend :: Solve where
  "failing_backend s = (False, variable_value s)"

definition counting_backend :: Solve where
  "counting_backend s = (True, (\<lambda>i. of_int i))"




section \<open>Properties\<close>

subsection \<open>The local basis\<close>


lemma length_Vector_3_zero_iff: "length_Vector_3 v = 0 \<longleftrightarrow> v = Vector_3 0 0 0"
proof
  assume "length_Vector_3 v = 0"
  then have s: "v3x v * v3x v + v3y v * v3y v + v3z v * v3z v = 0"
    by (simp add: length_Vector_3_def scalar_product_def)
  have "v3x v * v3x v = 0" "v3y v * v3y v = 0" "v3z v * v3z v = 0"
    using s zero_le_square [of "v3x v"] zero_le_square [of "v3y v"] zero_le_square [of "v3z v"]
    by linarith+
  then show "v = Vector_3 0 0 0"
    by (cases v) simp
next
  assume "v = Vector_3 0 0 0"
  then show "length_Vector_3 v = 0"
    by (simp add: length_Vector_3_def scalar_product_def)
qed

lemma guarded_division:
  "(if sqrt (scalar_product v v) \<noteq> 0 then divide_Vector_3 v (sqrt (scalar_product v v)) else Inr v)
   = Inr (if length_Vector_3 v = 0 then Vector_3 0 0 0 else normalize_Vector_3 v)"
  using length_Vector_3_zero_iff [of v]
  by (simp add: divide_Vector_3_def normalize_Vector_3_def length_Vector_3_def)

lemma project_triangle_eq:
  "project_triangle p0 p1 p2 =
     Inr (Point_2 0 0,
          Point_2 (length_Vector_3 (minus_Point_3 p1 p0)) 0,
          Point_2 (scalar_product (minus_Point_3 p2 p0) (spec_X p0 p1))
                  (scalar_product (minus_Point_3 p2 p0) (spec_Y p0 p1 p2)))"
proof -
  have X: "(if sqrt (scalar_product (minus_Point_3 p1 p0) (minus_Point_3 p1 p0)) \<noteq> 0
            then divide_Vector_3 (minus_Point_3 p1 p0)
                   (sqrt (scalar_product (minus_Point_3 p1 p0) (minus_Point_3 p1 p0)))
            else Inr (minus_Point_3 p1 p0)) = Inr (spec_X p0 p1)"
    unfolding guarded_division by (simp add: spec_X_def)
  have Z: "(if sqrt (scalar_product (cross_product (spec_X p0 p1) (minus_Point_3 p2 p0))
                       (cross_product (spec_X p0 p1) (minus_Point_3 p2 p0))) \<noteq> 0
            then divide_Vector_3 (cross_product (spec_X p0 p1) (minus_Point_3 p2 p0))
                   (sqrt (scalar_product (cross_product (spec_X p0 p1) (minus_Point_3 p2 p0))
                       (cross_product (spec_X p0 p1) (minus_Point_3 p2 p0))))
            else Inr (cross_product (spec_X p0 p1) (minus_Point_3 p2 p0))) = Inr (spec_Z p0 p1 p2)"
    unfolding guarded_division by (simp add: spec_Z_def length_Vector_3_zero_iff)
  show ?thesis
    unfolding project_triangle_def Let_def X sum.case Z
    by (simp add: spec_Y_def length_Vector_3_def)
qed

subsection \<open>The two rows of a triangle\<close>

lemma setup_triangle_relations_eq:
  "setup_triangle_relations solver mesh facet vimap =
     Inr (OK, with_rows solver (facet_rows mesh vimap facet))"
proof (cases "facet_vertices mesh facet")
  case (fields v0 v1 v2)
  show ?thesis
    unfolding setup_triangle_relations_def facet_rows_def fields project_triangle_eq
    by (simp add: Let_def minus_Point_2_def with_rows_def row_calls_def spec_real_row_def
        spec_imaginary_row_def slot_u_def slot_v_def begin_row_def end_row_def
        add_coefficient_def)
qed

subsection \<open>The border initializer\<close>

lemma initialize_vertex_history:
  "history (initialize_vertex uvmap vimap vpmap s v) =
     history s @ spec_vertex_calls uvmap vimap vpmap v"
  by (simp add: initialize_vertex_def spec_vertex_calls_def Let_def set_value_def lock_def
      slot_u_def slot_v_def)

lemma initialize_vertex_locked:
  "variable_locked (initialize_vertex uvmap vimap vpmap s v) k \<longleftrightarrow>
     variable_locked s k \<or> (get_Bool vpmap v \<and> (k = slot_u (vimap v) \<or> k = slot_v (vimap v)))"
  by (simp add: initialize_vertex_def Let_def set_value_def lock_def slot_u_def slot_v_def)

lemma initialize_vertex_value:
  "variable_value (initialize_vertex uvmap vimap vpmap s v) k =
     (if k = slot_v (vimap v) then p2y (uvmap v)
      else if k = slot_u (vimap v) then p2x (uvmap v)
      else variable_value s k)"
  by (simp add: initialize_vertex_def Let_def set_value_def lock_def slot_u_def slot_v_def)

lemma initialize_vertex_frame:
  "nb_variables (initialize_vertex uvmap vimap vpmap s v) = nb_variables s"
  "least_squares (initialize_vertex uvmap vimap vpmap s v) = least_squares s"
  "rows (initialize_vertex uvmap vimap vpmap s v) = rows s"
  "current_row (initialize_vertex uvmap vimap vpmap s v) = current_row s"
  by (simp_all add: initialize_vertex_def Let_def set_value_def lock_def)

lemma initialize_history:
  "history (foldl (initialize_vertex uvmap vimap vpmap) s vs) =
     history s @ concat (map (spec_vertex_calls uvmap vimap vpmap) vs)"
  by (induction vs arbitrary: s) (simp_all add: initialize_vertex_history)

lemma initialize_frame:
  "nb_variables (foldl (initialize_vertex uvmap vimap vpmap) s vs) = nb_variables s"
  "least_squares (foldl (initialize_vertex uvmap vimap vpmap) s vs) = least_squares s"
  "rows (foldl (initialize_vertex uvmap vimap vpmap) s vs) = rows s"
  "current_row (foldl (initialize_vertex uvmap vimap vpmap) s vs) = current_row s"
  by (induction vs arbitrary: s) (simp_all add: initialize_vertex_frame)

lemma initialize_locked:
  "variable_locked (foldl (initialize_vertex uvmap vimap vpmap) s vs) k \<longleftrightarrow>
     variable_locked s k \<or>
     (\<exists>w \<in> set vs. get_Bool vpmap w \<and> (k = slot_u (vimap w) \<or> k = slot_v (vimap w)))"
  by (induction vs arbitrary: s) (auto simp: initialize_vertex_locked)

lemma slot_distinct:
  "slot_u i \<noteq> slot_v j" "slot_v i \<noteq> slot_u j"
  "slot_u i = slot_u j \<longleftrightarrow> i = j" "slot_v i = slot_v j \<longleftrightarrow> i = j"
  by (simp_all add: slot_u_def slot_v_def) presburger+

lemma initialize_value:
  assumes "inj_on vimap (set vs)" and "v \<in> set vs"
  shows "variable_value (foldl (initialize_vertex uvmap vimap vpmap) s vs) (slot_u (vimap v)) = p2x (uvmap v)
       \<and> variable_value (foldl (initialize_vertex uvmap vimap vpmap) s vs) (slot_v (vimap v)) = p2y (uvmap v)"
  using assms
proof (induction vs rule: rev_induct)
  case Nil
  then show ?case by simp
next
  case (snoc x xs)
  show ?case
  proof (cases "v = x")
    case True
    then show ?thesis
      by (simp add: initialize_vertex_value slot_distinct)
  next
    case False
    with snoc.prems have v: "v \<in> set xs" by simp
    from snoc.prems have inj: "inj_on vimap (set xs)"
      by (simp add: inj_on_def)
    from snoc.prems False v have ne: "vimap v \<noteq> vimap x"
      by (auto simp: inj_on_def)
    from snoc.IH [OF inj v] ne show ?thesis
      by (simp add: initialize_vertex_value slot_distinct)
  qed
qed

lemma initialize_locked_inj:
  assumes "inj_on vimap (set vs)" and "v \<in> set vs" and "\<forall>k. \<not> variable_locked s k"
  shows "variable_locked (foldl (initialize_vertex uvmap vimap vpmap) s vs) (slot_u (vimap v)) = get_Bool vpmap v
       \<and> variable_locked (foldl (initialize_vertex uvmap vimap vpmap) s vs) (slot_v (vimap v)) = get_Bool vpmap v"
  using assms unfolding initialize_locked
  by (auto simp: slot_distinct inj_on_def)


subsection \<open>Assembly\<close>

lemma with_rows_append: "with_rows (with_rows s rs) rs' = with_rows s (rs @ rs')"
  by (simp add: with_rows_def)

lemma with_rows_Nil: "current_row s = [] \<Longrightarrow> with_rows s [] = s"
  by (simp add: with_rows_def)

lemma with_rows_fields:
  "nb_variables (with_rows s rs) = nb_variables s"
  "least_squares (with_rows s rs) = least_squares s"
  "variable_value (with_rows s rs) = variable_value s"
  "variable_locked (with_rows s rs) = variable_locked s"
  "rows (with_rows s rs) = rows s @ rs"
  "current_row (with_rows s rs) = []"
  "history (with_rows s rs) = history s @ concat (map row_calls rs)"
  by (simp_all add: with_rows_def)

lemma foreach_face_setup:
  assumes "current_row solver = []"
  shows "foreach_face (\<lambda>s fd. setup_triangle_relations s mesh fd vimap) OK solver fds =
           Inr (Loop_done OK (with_rows solver (concat (map (facet_rows mesh vimap) fds))))"
  using assms
proof (induction fds arbitrary: solver)
  case Nil
  then show ?case by (simp add: with_rows_Nil)
next
  case (Cons fd fds)
  have "current_row (with_rows solver (facet_rows mesh vimap fd)) = []"
    by (simp add: with_rows_fields)
  from Cons.IH [OF this] show ?case
    by (simp add: setup_triangle_relations_eq with_rows_append)
qed

lemma foldl_write_back:
  "foldl (write_back s vimap) uvmap vds vd =
     (if vd \<in> set vds
      then Point_2 (variable_value s (slot_u (vimap vd))) (variable_value s (slot_v (vimap vd)))
      else uvmap vd)"
  by (induction vds arbitrary: uvmap) (auto simp: write_back_def Let_def slot_u_def slot_v_def)

lemma write_back_order:
  "set vds = set vds' \<Longrightarrow>
     foldl (write_back s vimap) uvmap vds = foldl (write_back s vimap) uvmap vds'"
  by (rule ext) (simp add: foldl_write_back)

lemma foreach_face_append:
  "foreach_face step st0 s0 fds1 = Inr (Loop_done st1 s1) \<Longrightarrow>
     foreach_face step st0 s0 (fds1 @ fds2) = foreach_face step st1 s1 fds2"
  by (induction fds1 arbitrary: st0 s0) (auto split: sum.splits if_splits)

lemma foreach_face_done_status:
  "foreach_face step st0 s0 fds = Inr (Loop_done st1 s1) \<Longrightarrow> st0 = OK \<Longrightarrow> st1 = OK"
  by (induction fds arbitrary: st0 s0) (auto split: sum.splits if_splits)

lemma foreach_face_return_status:
  "foreach_face step st0 s0 fds = Inr (Loop_return st1 s1) \<Longrightarrow> st1 \<noteq> OK"
  by (induction fds arbitrary: st0 s0) (auto split: sum.splits if_splits)

lemma solve_fields:
  "fst (solve backend s) = fst (backend s)"
  "variable_value (snd (solve backend s)) = snd (backend s)"
  "nb_variables (snd (solve backend s)) = nb_variables s"
  "least_squares (snd (solve backend s)) = least_squares s"
  "variable_locked (snd (solve backend s)) = variable_locked s"
  "rows (snd (solve backend s)) = rows s"
  "history (snd (solve backend s)) = history s @ [Call_solve]"
  by (simp_all add: solve_def split: prod.splits)

lemma initialized_system_fields:
  "nb_variables (initialized_system mesh uvmap vimap vpmap) = 2 * num_vertices mesh"
  "least_squares (initialized_system mesh uvmap vimap vpmap) = True"
  "rows (initialized_system mesh uvmap vimap vpmap) = []"
  "history (initialized_system mesh uvmap vimap vpmap) =
     [Call_construct (2 * num_vertices mesh), Call_set_least_squares True] @
     concat (map (spec_vertex_calls uvmap vimap vpmap) (vertices mesh)) @ [Call_begin_system]"
  by (simp_all add: initialized_system_def begin_system_def
      initialize_system_from_mesh_border_def initialize_frame initialize_history
      set_least_squares_def construct_solver_def)

lemma assembled_system_fields:
  "nb_variables (assembled_system cc mesh bhd uvmap vimap vpmap) = 2 * num_vertices mesh"
  "least_squares (assembled_system cc mesh bhd uvmap vimap vpmap) = True"
  "rows (assembled_system cc mesh bhd uvmap vimap vpmap) =
     concat (map (facet_rows mesh vimap) (component_faces cc mesh bhd))"
  "history (assembled_system cc mesh bhd uvmap vimap vpmap) =
     [Call_construct (2 * num_vertices mesh), Call_set_least_squares True] @
     concat (map (spec_vertex_calls uvmap vimap vpmap) (vertices mesh)) @ [Call_begin_system] @
     concat (map row_calls (concat (map (facet_rows mesh vimap) (component_faces cc mesh bhd)))) @
     [Call_end_system]"
  by (simp_all add: assembled_system_def end_system_def with_rows_fields
      initialized_system_fields)

lemma initialized_system_current_row:
  "current_row (initialized_system mesh uvmap vimap vpmap) = []"
  by (simp add: initialized_system_def begin_system_def initialize_system_from_mesh_border_def
      initialize_frame set_least_squares_def construct_solver_def)

lemma LSCM_parameterize_with_eq:
  "LSCM_parameterize_with step parameterize_border cc backend mesh bhd uvmap vimap vpmap =
     (case parameterize_border mesh bhd uvmap vpmap of
        (st, uv1, vp1) \<Rightarrow>
          if st \<noteq> OK
          then Inr \<lparr>returned = st, uvmap_after = uv1, vpmap_after = vp1, solver_after = None\<rparr>
          else
            (case foreach_face (\<lambda>solver fd. step solver mesh fd vimap) OK
                    (initialized_system mesh uv1 vimap vp1) (component_faces cc mesh bhd) of
               Inl e \<Rightarrow> Inl e
             | Inr (Loop_return st' s') \<Rightarrow>
                 Inr \<lparr>returned = st', uvmap_after = uv1, vpmap_after = vp1,
                      solver_after = Some s'\<rparr>
             | Inr (Loop_done st' s') \<Rightarrow>
                 (if \<not> fst (solve backend (end_system s'))
                  then Inr \<lparr>returned = ERROR_CANNOT_SOLVE_LINEAR_SYSTEM, uvmap_after = uv1,
                            vpmap_after = vp1,
                            solver_after = Some (snd (solve backend (end_system s')))\<rparr>
                  else if st' \<noteq> OK
                  then Inr \<lparr>returned = st', uvmap_after = uv1, vpmap_after = vp1,
                            solver_after = Some (snd (solve backend (end_system s')))\<rparr>
                  else Inr \<lparr>returned = OK,
                            uvmap_after =
                              foldl (write_back (snd (solve backend (end_system s'))) vimap) uv1
                                (snd (Containers_filler mesh (component_faces cc mesh bhd))),
                            vpmap_after = vp1,
                            solver_after = Some (snd (solve backend (end_system s')))\<rparr>)))"
proof -
  have cf: "Containers_filler mesh (cc (face mesh (opposite mesh bhd)) mesh)
      = (component_faces cc mesh bhd,
         snd (Containers_filler mesh (component_faces cc mesh bhd)))"
    by (simp add: Containers_filler_def component_faces_def)
  show ?thesis
    unfolding LSCM_parameterize_with_def Let_def cf
    by (simp add: initialized_system_def split: sum.splits loop_result.splits prod.splits)
qed

lemma LSCM_parameterize_eq:
  "LSCM_parameterize parameterize_border cc backend mesh bhd uvmap vimap vpmap =
     (case parameterize_border mesh bhd uvmap vpmap of
        (st, uv1, vp1) \<Rightarrow>
          Inr (if st \<noteq> OK
               then \<lparr>returned = st, uvmap_after = uv1, vpmap_after = vp1, solver_after = None\<rparr>
               else if \<not> fst (backend (assembled_system cc mesh bhd uv1 vimap vp1))
               then \<lparr>returned = ERROR_CANNOT_SOLVE_LINEAR_SYSTEM, uvmap_after = uv1,
                     vpmap_after = vp1,
                     solver_after =
                       Some (snd (solve backend (assembled_system cc mesh bhd uv1 vimap vp1)))\<rparr>
               else \<lparr>returned = OK,
                     uvmap_after =
                       foldl (write_back
                                (snd (solve backend (assembled_system cc mesh bhd uv1 vimap vp1)))
                                vimap)
                         uv1 (snd (Containers_filler mesh (component_faces cc mesh bhd))),
                     vpmap_after = vp1,
                     solver_after =
                       Some (snd (solve backend (assembled_system cc mesh bhd uv1 vimap vp1)))\<rparr>))"
  unfolding LSCM_parameterize_def LSCM_parameterize_with_eq
  by (simp add: foreach_face_setup [OF initialized_system_current_row] assembled_system_def
      solve_fields split: prod.splits)

subsection \<open>Unit vectors\<close>


subsection \<open>Facts about the concrete data\<close>

lemma example_facets:
  "facet_vertices example_mesh 0 = (2, 0, 1)"
  "facet_vertices example_mesh 1 = (1, 0, 3)"
  "facet_vertices example_mesh 2 = (4, 5, 6)"
  by (simp_all add: facet_vertices_def example_mesh_def example_target_def example_next_def)

lemma example_projections:
  "project_triangle (Point_3 0 0 0) (Point_3 2 0 0) (Point_3 2 3 0)
     = Inr (Point_2 0 0, Point_2 2 0, Point_2 2 3)"
  "project_triangle (Point_3 2 3 0) (Point_3 2 0 0) (Point_3 4 0 0)
     = Inr (Point_2 0 0, Point_2 3 0, Point_2 3 2)"
  "project_triangle (Point_3 5 5 5) (Point_3 5 5 5) (Point_3 5 5 5)
     = Inr (Point_2 0 0, Point_2 0 0, Point_2 0 0)"
  by (simp_all add: project_triangle_def minus_Point_3_def scalar_product_def
      cross_product_def divide_Vector_3_def)

lemma example_component_faces:
  "component_faces example_component example_mesh 9 = [0, 1]"
  by (simp add: component_faces_def example_component_def example_mesh_def)

lemma example_around:
  "vertices_around_face example_mesh (halfedge example_mesh 0) = [2, 0, 1]"
  "vertices_around_face example_mesh (halfedge example_mesh 1) = [1, 0, 3]"
  "vertices_around_face example_mesh (halfedge example_mesh (Suc 0)) = [1, 0, 3]"
  "vertices_around_face example_mesh (halfedge example_mesh 2) = [4, 5, 6]"
  by (simp_all add: example_mesh_def example_target_def example_next_def)

lemma example_component_vertices:
  "component_vertices example_component example_mesh 9 = {0, 1, 2, 3}"
  unfolding component_vertices_def example_component_faces
  by (auto simp: example_around)

lemma example_borders:
  "failing_border example_mesh 9 example_uvmap (Bool_property_map {}) =
     (ERROR_OTHER 4, example_uvmap, Bool_property_map {})"
  "two_vertices_border example_mesh 9 example_uvmap (Bool_property_map {}) =
     (OK, example_uvmap(2 := Point_2 0 0, 0 := Point_2 1 0), Bool_property_map {0, 2})"
  by (simp_all add: failing_border_def two_vertices_border_def put_Bool_def)

subsection \<open>Rounded arithmetic\<close>










subsection \<open>Claims about the local basis and the two rows\<close>






text \<open>
  Claim C6. For every facet, whatever its geometry (triangles of area zero included),
  a call of \<open>setup_triangle_relations\<close> returns \<open>OK\<close> and appends exactly two rows
  to the rows of the system; the interface calls it adds to the history are those of
  the two rows one after the other, each row between one \<^verbatim>\<open>begin_row\<close> and one
  \<^verbatim>\<open>end_row\<close>.
\<close>

theorem setup_triangle_relations_two_rows:
  "\<exists>solver' r1 r2.
      setup_triangle_relations solver mesh facet vimap = Inr (OK, solver')
    \<and> rows solver' = rows solver @ [r1, r2]
    \<and> history solver' = history solver @ row_calls r1 @ row_calls r2
    \<and> count_list (row_calls r1) Call_begin_row = 1
    \<and> count_list (row_calls r1) Call_end_row = 1
    \<and> count_list (row_calls r2) Call_begin_row = 1
    \<and> count_list (row_calls r2) Call_end_row = 1"
proof -
  have one: "count_list (row_calls r) Call_begin_row = 1 \<and> count_list (row_calls r) Call_end_row = 1"
    for r
    by (induction r) (auto simp: row_calls_def)
  obtain r1 r2 where r: "facet_rows mesh vimap facet = [r1, r2]"
    by (cases "facet_vertices mesh facet") (simp add: facet_rows_def Let_def)
  show ?thesis
    unfolding setup_triangle_relations_eq r
    using one [of r1] one [of r2]
    by (simp add: with_rows_fields)
qed

theorem setup_triangle_relations_two_rows_witness:
  "\<exists>solver'.
      setup_triangle_relations (construct_solver 14) example_mesh 2 example_vimap
        = Inr (OK, solver')
    \<and> length (rows solver') = 2
    \<and> count_list (history solver') Call_begin_row = 2
    \<and> count_list (history solver') Call_end_row = 2"
  using setup_triangle_relations_two_rows [of "construct_solver 14" example_mesh 2 example_vimap]
  by (auto simp: construct_solver_def)

text \<open>
  Claim C1. Let \<open>v0\<close>, \<open>v1\<close>, \<open>v2\<close> be the vertices of the facet, \<open>id0\<close>, \<open>id1\<close>,
  \<open>id2\<close> their indices, \<open>(z0, z1, z2)\<close> the local basis of the triangle,
  \<open>(a, b) = z1 \<minus> z0\<close> and \<open>(c, d) = z2 \<minus> z0\<close>. Then \<open>b = 0\<close>, and
  \<open>setup_triangle_relations\<close> appends exactly two rows: the real row with
  \<open>\<minus>a + c\<close> at slot \<open>2\<cdot>id0\<close>, \<open>\<minus>d\<close> at \<open>2\<cdot>id0 + 1\<close>, \<open>\<minus>c\<close> at \<open>2\<cdot>id1\<close>,
  \<open>d\<close> at \<open>2\<cdot>id1 + 1\<close> and \<open>a\<close> at \<open>2\<cdot>id2\<close>, and the imaginary row with \<open>d\<close> at
  \<open>2\<cdot>id0\<close>, \<open>\<minus>a + c\<close> at \<open>2\<cdot>id0 + 1\<close>, \<open>\<minus>d\<close> at \<open>2\<cdot>id1\<close>, \<open>\<minus>c\<close> at
  \<open>2\<cdot>id1 + 1\<close> and \<open>a\<close> at \<open>2\<cdot>id2 + 1\<close>. These are all the coefficients: the
  \<^verbatim>\<open>add_coefficient\<close> calls are the ten listed ones, and when \<open>id2\<close> differs from
  \<open>id0\<close> and \<open>id1\<close>, slot \<open>2\<cdot>id2\<close> has no entry in the imaginary row.
\<close>

theorem setup_triangle_relations_coefficients:
  assumes "facet_vertices mesh facet = (v0, v1, v2)"
    and "project_triangle (vertex_point mesh v0) (vertex_point mesh v1) (vertex_point mesh v2)
           = Inr (z0, z1, z2)"
    and "id0 = vimap v0" and "id1 = vimap v1" and "id2 = vimap v2"
    and "a = v2x (minus_Point_2 z1 z0)" and "b = v2y (minus_Point_2 z1 z0)"
    and "c = v2x (minus_Point_2 z2 z0)" and "d = v2y (minus_Point_2 z2 z0)"
  shows "\<exists>solver'.
      setup_triangle_relations solver mesh facet vimap = Inr (OK, solver')
    \<and> b = 0
    \<and> rows solver' = rows solver @
         [[(2 * id0, - a + c), (2 * id0 + 1, - d), (2 * id1, - c), (2 * id1 + 1, d),
           (2 * id2, a)],
          [(2 * id0, d), (2 * id0 + 1, - a + c), (2 * id1, - d), (2 * id1 + 1, - c),
           (2 * id2 + 1, a)]]
    \<and> history solver' = history solver @
         [Call_begin_row,
          Call_add_coefficient (2 * id0) (- a + c), Call_add_coefficient (2 * id0 + 1) (- d),
          Call_add_coefficient (2 * id1) (- c), Call_add_coefficient (2 * id1 + 1) d,
          Call_add_coefficient (2 * id2) a,
          Call_end_row,
          Call_begin_row,
          Call_add_coefficient (2 * id0) d, Call_add_coefficient (2 * id0 + 1) (- a + c),
          Call_add_coefficient (2 * id1) (- d), Call_add_coefficient (2 * id1 + 1) (- c),
          Call_add_coefficient (2 * id2 + 1) a,
          Call_end_row]
    \<and> (id2 \<noteq> id0 \<and> id2 \<noteq> id1 \<longrightarrow>
         2 * id2 \<notin> fst ` set (last (rows solver')))"
proof -
  from assms(2) have z: "z0 = Point_2 0 0"
      "z1 = Point_2 (length_Vector_3 (minus_Point_3 (vertex_point mesh v1) (vertex_point mesh v0))) 0"
      "z2 = Point_2 (scalar_product (minus_Point_3 (vertex_point mesh v2) (vertex_point mesh v0))
                       (spec_X (vertex_point mesh v0) (vertex_point mesh v1)))
                    (scalar_product (minus_Point_3 (vertex_point mesh v2) (vertex_point mesh v0))
                       (spec_Y (vertex_point mesh v0) (vertex_point mesh v1) (vertex_point mesh v2)))"
    by (simp_all add: project_triangle_eq)
  have odd: "2 * id2 \<noteq> 2 * i + 1" for i
    by presburger
  show ?thesis
    unfolding setup_triangle_relations_eq
    using odd
    by (simp add: with_rows_fields facet_rows_def assms(1) assms(3-9) z Let_def
        minus_Point_2_def spec_real_row_def spec_imaginary_row_def slot_u_def slot_v_def
        row_calls_def)
qed

theorem setup_triangle_relations_coefficients_witness:
  "\<exists>solver'.
      setup_triangle_relations (construct_solver 14) example_mesh 0 example_vimap = Inr (OK, solver')
    \<and> rows solver' =
         [[(4, 0), (5, - 3), (0, - 2), (1, 3), (2, 2)],
          [(4, 3), (5, 0), (0, - 3), (1, - 2), (3, 2)]]
    \<and> 2 \<notin> fst ` set (last (rows solver'))"
proof -
  have pts: "vertex_point example_mesh 2 = Point_3 0 0 0"
      "vertex_point example_mesh 0 = Point_3 2 0 0"
      "vertex_point example_mesh 1 = Point_3 2 3 0"
    by (simp_all add: example_mesh_def example_point_def)
  have fv: "facet_vertices example_mesh 0 = (2, 0, 1)"
    by (rule example_facets)
  have pt: "project_triangle (vertex_point example_mesh 2) (vertex_point example_mesh 0)
        (vertex_point example_mesh 1) = Inr (Point_2 0 0, Point_2 2 0, Point_2 2 3)"
    by (simp only: pts example_projections)
  from setup_triangle_relations_coefficients
    [where vimap = example_vimap and solver = "construct_solver 14",
      OF fv pt refl refl refl refl refl refl refl]
  show ?thesis
    by (auto simp: example_vimap_def minus_Point_2_def construct_solver_def)
qed


subsection \<open>Claim about the border initializer\<close>

text \<open>
  Claim C5. \<open>initialize_system_from_mesh_border\<close> visits every vertex of the mesh, in
  the order of \<^verbatim>\<open>vertices(mesh)\<close>; for each vertex \<open>v\<close> it writes \<open>u\<close> and \<open>v\<close> of the
  vertex's UV value into the slots \<open>2\<cdot>index(v)\<close> and \<open>2\<cdot>index(v) + 1\<close>, and it calls
  \<^verbatim>\<open>lock\<close> on these two slots exactly when the vertex is pinned. Hence a slot is locked
  afterwards if and only if it was locked before or it is one of the two slots of a
  pinned vertex of the mesh. When the index map is injective on the vertices of the
  mesh (the values of the map are unique indices), the two slots of every vertex hold its
  UV value afterwards, and, the system having had no locked unknown before, they are
  locked if and only if the vertex is pinned.
\<close>

theorem initialize_system_from_mesh_border_effect:
  "history (initialize_system_from_mesh_border solver mesh uvmap vimap vpmap) =
      history solver @ concat (map (spec_vertex_calls uvmap vimap vpmap) (vertices mesh))
   \<and> (\<forall>k. variable_locked (initialize_system_from_mesh_border solver mesh uvmap vimap vpmap) k
          \<longleftrightarrow> variable_locked solver k \<or>
              (\<exists>w \<in> set (vertices mesh).
                  get_Bool vpmap w \<and> (k = 2 * vimap w \<or> k = 2 * vimap w + 1)))
   \<and> (inj_on vimap (set (vertices mesh)) \<longrightarrow>
        (\<forall>v \<in> set (vertices mesh).
            variable_value (initialize_system_from_mesh_border solver mesh uvmap vimap vpmap)
              (2 * vimap v) = p2x (uvmap v)
          \<and> variable_value (initialize_system_from_mesh_border solver mesh uvmap vimap vpmap)
              (2 * vimap v + 1) = p2y (uvmap v)
          \<and> ((\<forall>k. \<not> variable_locked solver k) \<longrightarrow>
                variable_locked (initialize_system_from_mesh_border solver mesh uvmap vimap vpmap)
                  (2 * vimap v) = get_Bool vpmap v
              \<and> variable_locked (initialize_system_from_mesh_border solver mesh uvmap vimap vpmap)
                  (2 * vimap v + 1) = get_Bool vpmap v)))"
  unfolding initialize_system_from_mesh_border_def
  using initialize_value [of vimap "vertices mesh" _ uvmap vpmap solver]
    initialize_locked_inj [of vimap "vertices mesh" _ solver uvmap vpmap]
  by (simp add: initialize_history initialize_locked slot_u_def slot_v_def)

theorem initialize_system_from_mesh_border_effect_witness:
  "variable_value (initialize_system_from_mesh_border (construct_solver 14) example_mesh
       example_uvmap example_vimap (Bool_property_map {2, 0})) 4 = 2
   \<and> variable_value (initialize_system_from_mesh_border (construct_solver 14) example_mesh
       example_uvmap example_vimap (Bool_property_map {2, 0})) 5 = 7
   \<and> variable_locked (initialize_system_from_mesh_border (construct_solver 14) example_mesh
       example_uvmap example_vimap (Bool_property_map {2, 0})) 4
   \<and> variable_locked (initialize_system_from_mesh_border (construct_solver 14) example_mesh
       example_uvmap example_vimap (Bool_property_map {2, 0})) 5
   \<and> variable_value (initialize_system_from_mesh_border (construct_solver 14) example_mesh
       example_uvmap example_vimap (Bool_property_map {2, 0})) 12 = 6
   \<and> \<not> variable_locked (initialize_system_from_mesh_border (construct_solver 14) example_mesh
       example_uvmap example_vimap (Bool_property_map {2, 0})) 12
   \<and> \<not> variable_locked (initialize_system_from_mesh_border (construct_solver 14) example_mesh
       example_uvmap example_vimap (Bool_property_map {2, 0})) 13"
proof -
  let ?s = "initialize_system_from_mesh_border (construct_solver 14) example_mesh
       example_uvmap example_vimap (Bool_property_map {2, 0})"
  have inj: "inj_on example_vimap (set (vertices example_mesh))"
    by (simp add: example_vimap_def inj_on_def)
  have free: "\<forall>k. \<not> variable_locked (construct_solver 14) k"
    by (simp add: construct_solver_def)
  have mem: "2 \<in> set (vertices example_mesh)" "6 \<in> set (vertices example_mesh)"
    by (simp_all add: example_mesh_def)
  note t = initialize_system_from_mesh_border_effect
    [of "construct_solver 14" example_mesh example_uvmap example_vimap "Bool_property_map {2, 0}"]
  from t inj have all: "\<forall>v \<in> set (vertices example_mesh).
        variable_value ?s (2 * example_vimap v) = p2x (example_uvmap v)
      \<and> variable_value ?s (2 * example_vimap v + 1) = p2y (example_uvmap v)
      \<and> ((\<forall>k. \<not> variable_locked (construct_solver 14) k) \<longrightarrow>
            variable_locked ?s (2 * example_vimap v) = get_Bool (Bool_property_map {2, 0}) v
          \<and> variable_locked ?s (2 * example_vimap v + 1) = get_Bool (Bool_property_map {2, 0}) v)"
    by blast
  from all [THEN bspec, OF mem(1)] all [THEN bspec, OF mem(2)] free show ?thesis
    by (simp add: example_vimap_def example_uvmap_def get_Bool_def)
qed

subsection \<open>Claims about the orchestrator\<close>

text \<open>
  Claim C3. Let the border parameterizer return the status \<open>st\<close> and leave the UV map
  \<open>uv1\<close> and the pinned-flag map \<open>vp1\<close>. For every per-face function in the place of
  \<open>setup_triangle_relations\<close>: if \<open>st\<close> is not \<open>OK\<close>, the orchestrator returns \<open>st\<close>
  at once, and no solver is constructed; if a face is rejected with a status \<open>st'\<close>
  after the faces before it were assembled, the orchestrator returns \<open>st'\<close> and the solver
  is left as that call left it (no later face, no \<^verbatim>\<open>end_system\<close>, no \<^verbatim>\<open>solve\<close>); if
  every face was assembled and the backend reports failure, the orchestrator returns
  \<open>ERROR_CANNOT_SOLVE_LINEAR_SYSTEM\<close>. Whenever the returned status is not \<open>OK\<close>, the
  UV map and the pinned-flag map are \<open>uv1\<close> and \<open>vp1\<close>: the orchestrator has written
  nothing. For the member function itself (with \<open>setup_triangle_relations\<close>, which
  never rejects a face) the call returns, and its status is \<open>st\<close> if the border failed,
  \<open>ERROR_CANNOT_SOLVE_LINEAR_SYSTEM\<close> if the backend failed, and \<open>OK\<close> otherwise.
\<close>

theorem LSCM_parameterize_error_propagation:
  assumes "parameterize_border mesh bhd uvmap vpmap = (st, uv1, vp1)"
  shows
    "(st \<noteq> OK \<longrightarrow>
        LSCM_parameterize_with step parameterize_border cc backend mesh bhd uvmap vimap vpmap =
          Inr \<lparr>returned = st, uvmap_after = uv1, vpmap_after = vp1, solver_after = None\<rparr>)
   \<and> (st = OK \<longrightarrow>
        (\<forall>fds1 fd fds2 s st' s'.
            component_faces cc mesh bhd = fds1 @ fd # fds2
          \<and> foreach_face (\<lambda>solver fd. step solver mesh fd vimap) OK
                (initialized_system mesh uv1 vimap vp1) fds1 = Inr (Loop_done OK s)
          \<and> step s mesh fd vimap = Inr (st', s') \<and> st' \<noteq> OK
          \<longrightarrow> LSCM_parameterize_with step parameterize_border cc backend mesh bhd uvmap vimap vpmap =
                Inr \<lparr>returned = st', uvmap_after = uv1, vpmap_after = vp1,
                     solver_after = Some s'\<rparr>))
   \<and> (st = OK \<longrightarrow>
        (\<forall>s. foreach_face (\<lambda>solver fd. step solver mesh fd vimap) OK
                (initialized_system mesh uv1 vimap vp1) (component_faces cc mesh bhd)
                = Inr (Loop_done OK s)
          \<and> \<not> fst (backend (end_system s))
          \<longrightarrow> LSCM_parameterize_with step parameterize_border cc backend mesh bhd uvmap vimap vpmap =
                Inr \<lparr>returned = ERROR_CANNOT_SOLVE_LINEAR_SYSTEM, uvmap_after = uv1,
                     vpmap_after = vp1,
                     solver_after = Some (snd (solve backend (end_system s)))\<rparr>))
   \<and> (\<forall>r. LSCM_parameterize_with step parameterize_border cc backend mesh bhd uvmap vimap vpmap
             = Inr r \<and> returned r \<noteq> OK
          \<longrightarrow> uvmap_after r = uv1 \<and> vpmap_after r = vp1)
   \<and> (\<exists>r. LSCM_parameterize parameterize_border cc backend mesh bhd uvmap vimap vpmap = Inr r
          \<and> returned r =
              (if st \<noteq> OK then st
               else if fst (backend (assembled_system cc mesh bhd uv1 vimap vp1)) then OK
               else ERROR_CANNOT_SOLVE_LINEAR_SYSTEM)
          \<and> (returned r \<noteq> OK \<longrightarrow> uvmap_after r = uv1 \<and> vpmap_after r = vp1))"
proof -
  have eq: "LSCM_parameterize_with step parameterize_border cc backend mesh bhd uvmap vimap vpmap =
     (if st \<noteq> OK
      then Inr \<lparr>returned = st, uvmap_after = uv1, vpmap_after = vp1, solver_after = None\<rparr>
      else
        (case foreach_face (\<lambda>solver fd. step solver mesh fd vimap) OK
                (initialized_system mesh uv1 vimap vp1) (component_faces cc mesh bhd) of
           Inl e \<Rightarrow> Inl e
         | Inr (Loop_return st' s') \<Rightarrow>
             Inr \<lparr>returned = st', uvmap_after = uv1, vpmap_after = vp1,
                  solver_after = Some s'\<rparr>
         | Inr (Loop_done st' s') \<Rightarrow>
             (if \<not> fst (solve backend (end_system s'))
              then Inr \<lparr>returned = ERROR_CANNOT_SOLVE_LINEAR_SYSTEM, uvmap_after = uv1,
                        vpmap_after = vp1,
                        solver_after = Some (snd (solve backend (end_system s')))\<rparr>
              else if st' \<noteq> OK
              then Inr \<lparr>returned = st', uvmap_after = uv1, vpmap_after = vp1,
                        solver_after = Some (snd (solve backend (end_system s')))\<rparr>
              else Inr \<lparr>returned = OK,
                        uvmap_after =
                          foldl (write_back (snd (solve backend (end_system s'))) vimap) uv1
                            (snd (Containers_filler mesh (component_faces cc mesh bhd))),
                        vpmap_after = vp1,
                        solver_after = Some (snd (solve backend (end_system s')))\<rparr>)))"
    by (simp add: LSCM_parameterize_with_eq assms)
  have border: "st \<noteq> OK \<longrightarrow>
        LSCM_parameterize_with step parameterize_border cc backend mesh bhd uvmap vimap vpmap =
          Inr \<lparr>returned = st, uvmap_after = uv1, vpmap_after = vp1, solver_after = None\<rparr>"
    by (simp add: eq)
  have triangle: "LSCM_parameterize_with step parameterize_border cc backend mesh bhd uvmap vimap vpmap =
                Inr \<lparr>returned = st', uvmap_after = uv1, vpmap_after = vp1,
                     solver_after = Some s'\<rparr>"
    if "st = OK" and "component_faces cc mesh bhd = fds1 @ fd # fds2"
      and "foreach_face (\<lambda>solver fd. step solver mesh fd vimap) OK
                (initialized_system mesh uv1 vimap vp1) fds1 = Inr (Loop_done OK s)"
      and "step s mesh fd vimap = Inr (st', s')" and "st' \<noteq> OK"
    for fds1 fd fds2 s st' s'
  proof -
    have "foreach_face (\<lambda>solver fd. step solver mesh fd vimap) OK
            (initialized_system mesh uv1 vimap vp1) (component_faces cc mesh bhd)
          = Inr (Loop_return st' s')"
      unfolding that(2) foreach_face_append [OF that(3)]
      using that(4,5) by simp
    then show ?thesis
      using that(1) by (simp add: eq)
  qed
  have solving: "LSCM_parameterize_with step parameterize_border cc backend mesh bhd uvmap vimap vpmap =
                Inr \<lparr>returned = ERROR_CANNOT_SOLVE_LINEAR_SYSTEM, uvmap_after = uv1,
                     vpmap_after = vp1,
                     solver_after = Some (snd (solve backend (end_system s)))\<rparr>"
    if "st = OK" and "foreach_face (\<lambda>solver fd. step solver mesh fd vimap) OK
                (initialized_system mesh uv1 vimap vp1) (component_faces cc mesh bhd)
                = Inr (Loop_done OK s)"
      and "\<not> fst (backend (end_system s))"
    for s
    using that by (simp add: eq solve_fields)
  have no_write: "uvmap_after r = uv1 \<and> vpmap_after r = vp1"
    if "LSCM_parameterize_with step parameterize_border cc backend mesh bhd uvmap vimap vpmap = Inr r"
      and "returned r \<noteq> OK"
    for r
    using that unfolding eq
    by (auto split: if_splits sum.splits loop_result.splits)
  have member: "\<exists>r. LSCM_parameterize parameterize_border cc backend mesh bhd uvmap vimap vpmap = Inr r
          \<and> returned r =
              (if st \<noteq> OK then st
               else if fst (backend (assembled_system cc mesh bhd uv1 vimap vp1)) then OK
               else ERROR_CANNOT_SOLVE_LINEAR_SYSTEM)
          \<and> (returned r \<noteq> OK \<longrightarrow> uvmap_after r = uv1 \<and> vpmap_after r = vp1)"
    by (simp add: LSCM_parameterize_eq assms)
  from border triangle solving no_write member show ?thesis
    by blast
qed


theorem LSCM_parameterize_error_propagation_witness:
  "LSCM_parameterize_with setup_triangle_relations failing_border example_component
      counting_backend example_mesh 9 example_uvmap example_vimap (Bool_property_map {}) =
     Inr \<lparr>returned = ERROR_OTHER 4, uvmap_after = example_uvmap,
          vpmap_after = Bool_property_map {}, solver_after = None\<rparr>
   \<and> LSCM_parameterize_with rejecting_relations two_vertices_border example_component
      counting_backend example_mesh 9 example_uvmap example_vimap (Bool_property_map {}) =
     Inr \<lparr>returned = ERROR_OTHER 2,
          uvmap_after = example_uvmap(2 := Point_2 0 0, 0 := Point_2 1 0),
          vpmap_after = Bool_property_map {0, 2},
          solver_after =
            Some (with_rows
                    (initialized_system example_mesh
                       (example_uvmap(2 := Point_2 0 0, 0 := Point_2 1 0)) example_vimap
                       (Bool_property_map {0, 2}))
                    (facet_rows example_mesh example_vimap 0))\<rparr>
   \<and> (\<exists>r. LSCM_parameterize two_vertices_border example_component failing_backend
            example_mesh 9 example_uvmap example_vimap (Bool_property_map {}) = Inr r
          \<and> returned r = ERROR_CANNOT_SOLVE_LINEAR_SYSTEM
          \<and> uvmap_after r = example_uvmap(2 := Point_2 0 0, 0 := Point_2 1 0))"
proof -
  let ?uv1 = "example_uvmap(2 := Point_2 0 0, 0 := Point_2 1 0)"
  let ?vp1 = "Bool_property_map {0, 2}"
  let ?s0 = "initialized_system example_mesh ?uv1 example_vimap ?vp1"
  let ?s1 = "with_rows ?s0 (facet_rows example_mesh example_vimap 0)"
  have first: "foreach_face (\<lambda>solver fd. rejecting_relations solver example_mesh fd example_vimap)
      OK ?s0 [0] = Inr (Loop_done OK ?s1)"
    by (simp add: rejecting_relations_def setup_triangle_relations_eq)
  have second: "rejecting_relations ?s1 example_mesh 1 example_vimap = Inr (ERROR_OTHER 2, ?s1)"
    by (simp add: rejecting_relations_def)
  have split: "component_faces example_component example_mesh 9 = [0] @ 1 # []"
    by (simp add: example_component_faces)
  note a = LSCM_parameterize_error_propagation [where parameterize_border = failing_border
      and mesh = example_mesh and bhd = 9 and uvmap = example_uvmap
      and vpmap = "Bool_property_map {}" and step = setup_triangle_relations
      and cc = example_component and backend = counting_backend and vimap = example_vimap,
      OF example_borders(1)]
  note b = LSCM_parameterize_error_propagation [where parameterize_border = two_vertices_border
      and mesh = example_mesh and bhd = 9 and uvmap = example_uvmap
      and vpmap = "Bool_property_map {}" and step = rejecting_relations
      and cc = example_component and backend = counting_backend and vimap = example_vimap,
      OF example_borders(2)]
  note c = LSCM_parameterize_error_propagation [where parameterize_border = two_vertices_border
      and mesh = example_mesh and bhd = 9 and uvmap = example_uvmap
      and vpmap = "Bool_property_map {}" and step = setup_triangle_relations
      and cc = example_component and backend = failing_backend and vimap = example_vimap,
      OF example_borders(2)]
  from a have A: "LSCM_parameterize_with setup_triangle_relations failing_border example_component
      counting_backend example_mesh 9 example_uvmap example_vimap (Bool_property_map {}) =
     Inr \<lparr>returned = ERROR_OTHER 4, uvmap_after = example_uvmap,
          vpmap_after = Bool_property_map {}, solver_after = None\<rparr>"
    by simp
  from b split first second
  have B: "LSCM_parameterize_with rejecting_relations two_vertices_border example_component
      counting_backend example_mesh 9 example_uvmap example_vimap (Bool_property_map {}) =
     Inr \<lparr>returned = ERROR_OTHER 2, uvmap_after = ?uv1, vpmap_after = ?vp1,
          solver_after = Some ?s1\<rparr>"
    by blast
  from c have C: "\<exists>r. LSCM_parameterize two_vertices_border example_component failing_backend
            example_mesh 9 example_uvmap example_vimap (Bool_property_map {}) = Inr r
          \<and> returned r = ERROR_CANNOT_SOLVE_LINEAR_SYSTEM \<and> uvmap_after r = ?uv1"
    by (auto simp: failing_backend_def)
  from A B C show ?thesis by simp
qed

text \<open>
  Claim C4. When the border parameterizer returns \<open>OK\<close>, leaving the UV map \<open>uv1\<close>,
  and the backend reports success with the values \<open>x\<close>, the orchestrator returns
  \<open>OK\<close>, and the UV map it leaves holds, for every vertex around a face of the
  enumerated component, the pair (value of slot \<open>2\<cdot>index\<close>, value of slot
  \<open>2\<cdot>index + 1\<close>) read from the solver, and for every other vertex the entry of
  \<open>uv1\<close>: the write-back does not touch it.
\<close>

theorem LSCM_parameterize_write_back:
  assumes "parameterize_border mesh bhd uvmap vpmap = (OK, uv1, vp1)"
    and "backend (assembled_system cc mesh bhd uv1 vimap vp1) = (True, x)"
  shows "\<exists>r s. LSCM_parameterize parameterize_border cc backend mesh bhd uvmap vimap vpmap = Inr r
      \<and> returned r = OK
      \<and> solver_after r = Some s
      \<and> variable_value s = x
      \<and> (\<forall>vd. uvmap_after r vd =
            (if vd \<in> component_vertices cc mesh bhd
             then Point_2 (variable_value s (2 * vimap vd)) (variable_value s (2 * vimap vd + 1))
             else uv1 vd))"
proof -
  have vs: "set (snd (Containers_filler mesh (component_faces cc mesh bhd)))
      = component_vertices cc mesh bhd"
    by (simp add: Containers_filler_def component_vertices_def)
  show ?thesis
    by (simp add: LSCM_parameterize_eq assms solve_fields foldl_write_back vs
        slot_u_def slot_v_def)
qed

theorem LSCM_parameterize_write_back_witness:
  "\<exists>r. LSCM_parameterize two_vertices_border example_component counting_backend
          example_mesh 9 example_uvmap example_vimap (Bool_property_map {}) = Inr r
      \<and> returned r = OK
      \<and> uvmap_after r 2 = Point_2 4 5
      \<and> uvmap_after r 3 = Point_2 6 7
      \<and> uvmap_after r 5 = Point_2 5 7
      \<and> uvmap_after r 5 = example_uvmap 5"
proof -
  have bk: "counting_backend (assembled_system example_component example_mesh 9
        (example_uvmap(2 := Point_2 0 0, 0 := Point_2 1 0)) example_vimap
        (Bool_property_map {0, 2})) = (True, (\<lambda>i. of_int i))"
    by (simp add: counting_backend_def)
  from LSCM_parameterize_write_back [where parameterize_border = two_vertices_border
      and mesh = example_mesh and bhd = 9 and uvmap = example_uvmap
      and vpmap = "Bool_property_map {}" and cc = example_component
      and backend = counting_backend and vimap = example_vimap,
      OF example_borders(2) bk]
  show ?thesis
    by (auto simp: example_component_vertices example_vimap_def example_uvmap_def)
qed

text \<open>
  Claim C8. When the border parameterizer returns \<open>OK\<close>, the orchestrator constructs
  the system with \<open>2n\<close> unknowns, \<open>n\<close> being the number of vertices of the mesh, and
  switches it to least-squares mode as its second interface call, before the border
  initialization (which writes \<open>u\<close> of a vertex of index \<open>i\<close> to slot \<open>2\<cdot>i\<close> and \<open>v\<close>
  to slot \<open>2\<cdot>i + 1\<close>), before \<^verbatim>\<open>begin_system\<close> and before the calls of any row; the
  number of unknowns and the mode are still the same when the function returns.
\<close>

theorem LSCM_parameterize_allocation:
  assumes "parameterize_border mesh bhd uvmap vpmap = (OK, uv1, vp1)"
  shows "\<exists>r s. LSCM_parameterize parameterize_border cc backend mesh bhd uvmap vimap vpmap = Inr r
      \<and> solver_after r = Some s
      \<and> num_vertices mesh = int (length (vertices mesh))
      \<and> nb_variables s = 2 * num_vertices mesh
      \<and> least_squares s
      \<and> history s =
          [Call_construct (2 * num_vertices mesh), Call_set_least_squares True] @
          concat (map (spec_vertex_calls uv1 vimap vp1) (vertices mesh)) @
          [Call_begin_system] @
          concat (map row_calls (rows s)) @
          [Call_end_system, Call_solve]"
  by (simp add: LSCM_parameterize_eq assms solve_fields assembled_system_fields num_vertices_def)

theorem LSCM_parameterize_allocation_witness:
  "\<exists>r s. LSCM_parameterize two_vertices_border example_component counting_backend
          example_mesh 9 example_uvmap example_vimap (Bool_property_map {}) = Inr r
      \<and> solver_after r = Some s
      \<and> nb_variables s = 14
      \<and> least_squares s
      \<and> take 4 (history s) =
          [Call_construct 14, Call_set_least_squares True, Call_set_value 0 1, Call_set_value 1 0]"
  using LSCM_parameterize_allocation [where parameterize_border = two_vertices_border
      and mesh = example_mesh and bhd = 9 and uvmap = example_uvmap
      and vpmap = "Bool_property_map {}" and cc = example_component
      and backend = counting_backend and vimap = example_vimap,
      OF example_borders(2)]
  by (auto simp: num_vertices_def example_mesh_def spec_vertex_calls_def example_vimap_def
      slot_u_def slot_v_def)

subsection \<open>The index functor\<close>

lemma Vertices_visit_eq:
  "Vertices_visit s vd =
     (case Vertices_map s vd of
        None \<Rightarrow> \<lparr>Vertices_map = (Vertices_map s)(vd \<mapsto> Vertices_index s),
                 Vertices_index = Vertices_index s + 1\<rparr>
      | Some i \<Rightarrow> s)"
  by (simp add: Vertices_visit_def insert_pair_def split: option.splits)

lemma Vertices_visit_known:
  "Vertices_map s vd = Some i \<Longrightarrow> Vertices_visit s vd = s"
  by (simp add: Vertices_visit_eq)

lemma Vertices_visit_keeps:
  "Vertices_map s w = Some i \<Longrightarrow> Vertices_map (Vertices_visit s vd) w = Some i"
  by (auto simp: Vertices_visit_eq split: option.splits)

lemma foldl_Vertices_visit_keeps:
  "Vertices_map s w = Some i \<Longrightarrow> Vertices_map (foldl Vertices_visit s vds) w = Some i"
  by (induction vds arbitrary: s) (simp_all add: Vertices_visit_keeps)

lemma output_faces_concat:
  "foldl (Vertices_call mesh) s fds =
     foldl Vertices_visit s
       (concat (map (\<lambda>fd. vertices_around_face mesh (halfedge mesh fd)) fds))"
  by (induction fds arbitrary: s) (simp_all add: Vertices_call_def)

lemma first_encounter_snoc:
  "first_encounter (xs @ [x]) =
     (if x \<in> set xs then first_encounter xs else first_encounter xs @ [x])"
  by (simp add: first_encounter_def)

lemma first_encounter_set: "set (first_encounter xs) = set xs"
  by (simp add: first_encounter_def)

lemma first_encounter_distinct: "distinct (first_encounter xs)"
  by (simp add: first_encounter_def)

lemma first_encounter_length: "length (first_encounter xs) = card (set xs)"
  using distinct_card [OF first_encounter_distinct, of xs]
  by (simp add: first_encounter_set)

lemma visit_all:
  "Vertices_index (foldl Vertices_visit (Vertices_init Map.empty) vs)
      = int (length (first_encounter vs))
   \<and> dom (Vertices_map (foldl Vertices_visit (Vertices_init Map.empty) vs)) = set vs
   \<and> (\<forall>i < length (first_encounter vs).
         Vertices_map (foldl Vertices_visit (Vertices_init Map.empty) vs) (first_encounter vs ! i)
           = Some (int i))"
proof (induction vs rule: rev_induct)
  case Nil
  show ?case
    by (simp add: Vertices_init_def first_encounter_def)
next
  case (snoc x xs)
  let ?s = "foldl Vertices_visit (Vertices_init Map.empty) xs"
  let ?L = "first_encounter xs"
  from snoc have idx: "Vertices_index ?s = int (length ?L)"
    and dm: "dom (Vertices_map ?s) = set xs"
    and pos: "\<And>i. i < length ?L \<Longrightarrow> Vertices_map ?s (?L ! i) = Some (int i)"
    by blast+
  show ?case
  proof (cases "x \<in> set xs")
    case True
    with dm obtain i where "Vertices_map ?s x = Some i"
      by auto
    then have "Vertices_visit ?s x = ?s"
      by (rule Vertices_visit_known)
    with True idx dm pos show ?thesis
      by (auto simp: first_encounter_snoc)
  next
    case False
    with dm have none: "Vertices_map ?s x = None"
      by auto
    have new: "Vertices_visit ?s x =
        \<lparr>Vertices_map = (Vertices_map ?s)(x \<mapsto> int (length ?L)),
         Vertices_index = int (length ?L) + 1\<rparr>"
      by (simp add: Vertices_visit_eq none idx)
    have other: "?L ! i \<noteq> x" if "i < length ?L" for i
      using that False nth_mem [OF that] by (auto simp: first_encounter_set)
    have L': "first_encounter (xs @ [x]) = ?L @ [x]"
      using False by (simp add: first_encounter_snoc)
    have s': "foldl Vertices_visit (Vertices_init Map.empty) (xs @ [x]) =
        \<lparr>Vertices_map = (Vertices_map ?s)(x \<mapsto> int (length ?L)),
         Vertices_index = int (length ?L) + 1\<rparr>"
      by (simp add: new)
    have A: "Vertices_index (foldl Vertices_visit (Vertices_init Map.empty) (xs @ [x]))
        = int (length (first_encounter (xs @ [x])))"
      unfolding s' L' by simp
    have B: "dom (Vertices_map (foldl Vertices_visit (Vertices_init Map.empty) (xs @ [x])))
        = set (xs @ [x])"
      unfolding s' using dm by simp
    have C: "Vertices_map (foldl Vertices_visit (Vertices_init Map.empty) (xs @ [x]))
           (first_encounter (xs @ [x]) ! i) = Some (int i)"
      if "i < length (first_encounter (xs @ [x]))" for i
    proof (cases "i < length ?L")
      case True
      then show ?thesis
        unfolding s' L' by (simp add: nth_append pos other)
    next
      case False
      with that have "i = length ?L"
        unfolding L' by simp
      then show ?thesis
        unfolding s' L' by simp
    qed
    from A B C show ?thesis
      by blast
  qed
qed

subsection \<open>Claims about the entry point\<close>

text \<open>
  Claim C10. Let \<open>vs\<close> be the vertices around the faces of the component of the face
  opposite to the boundary half-edge, in the order in which the traversal meets them,
  and \<open>s\<close> the state of the \<open>Vertices\<close> functor after the traversal. The entry point
  hands the parameterizer the map of \<open>s\<close> as vertex index map. The keys of the map are
  exactly the vertices of the component; the \<open>i\<close>-th distinct vertex in the order of
  first encounter has the index \<open>i\<close>, counted from \<open>0\<close>; the counter ends at the number
  \<open>k\<close> of vertices of the component; the map is injective on them and its values are
  exactly the integers of \<open>[0, k)\<close>. A vertex that already has an entry is left alone by
  the functor, and keeps its index whatever is visited afterwards.
\<close>

theorem Vertices_index_map:
  assumes "vs = concat (map (\<lambda>fd. vertices_around_face mesh (halfedge mesh fd))
                      (component_faces cc mesh bhd))"
    and "s = output_faces mesh Map.empty (component_faces cc mesh bhd)"
  shows "parameterize cc parameterizer mesh bhd uvm =
           parameterizer mesh bhd uvm (make_assoc_property_map (Vertices_map s))
             (Bool_property_map {})
      \<and> set vs = component_vertices cc mesh bhd
      \<and> distinct (first_encounter vs) \<and> set (first_encounter vs) = set vs
      \<and> dom (Vertices_map s) = set vs
      \<and> (\<forall>i < length (first_encounter vs).
            Vertices_map s (first_encounter vs ! i) = Some (int i)
          \<and> make_assoc_property_map (Vertices_map s) (first_encounter vs ! i) = int i)
      \<and> Vertices_index s = int (card (set vs))
      \<and> inj_on (Vertices_map s) (set vs)
      \<and> ran (Vertices_map s) = {k. 0 \<le> k \<and> k < int (card (set vs))}
      \<and> (\<forall>s0 vd k. Vertices_map s0 vd = Some k \<longrightarrow>
            Vertices_visit s0 vd = s0
          \<and> (\<forall>vds. Vertices_map (foldl Vertices_visit s0 vds) vd = Some k))"
proof -
  let ?L = "first_encounter vs"
  have s: "s = foldl Vertices_visit (Vertices_init Map.empty) vs"
    by (simp add: assms output_faces_def output_faces_concat)
  note va = visit_all [of vs, folded s]
  from va have idx: "Vertices_index s = int (length ?L)"
    and dm: "dom (Vertices_map s) = set vs"
    and pos: "\<And>i. i < length ?L \<Longrightarrow> Vertices_map s (?L ! i) = Some (int i)"
    by blast+
  have entry: "parameterize cc parameterizer mesh bhd uvm =
           parameterizer mesh bhd uvm (make_assoc_property_map (Vertices_map s))
             (Bool_property_map {})"
    by (simp add: parameterize_def assms(2) component_faces_def)
  have comp: "set vs = component_vertices cc mesh bhd"
    by (simp add: assms(1) component_vertices_def)
  have inj: "inj_on (Vertices_map s) (set vs)"
  proof (rule inj_onI)
    fix v w
    assume v: "v \<in> set vs" and w: "w \<in> set vs" and eq: "Vertices_map s v = Vertices_map s w"
    from v have "v \<in> set ?L"
      by (simp add: first_encounter_set)
    then obtain i where i: "i < length ?L" "?L ! i = v"
      by (auto simp: in_set_conv_nth)
    from w have "w \<in> set ?L"
      by (simp add: first_encounter_set)
    then obtain j where j: "j < length ?L" "?L ! j = w"
      by (auto simp: in_set_conv_nth)
    from pos [OF i(1)] pos [OF j(1)] eq i(2) j(2) have "i = j"
      by simp
    with i(2) j(2) show "v = w"
      by simp
  qed
  have rn: "ran (Vertices_map s) = {k. 0 \<le> k \<and> k < int (card (set vs))}"
  proof (rule set_eqI)
    fix k
    show "k \<in> ran (Vertices_map s) \<longleftrightarrow> k \<in> {k. 0 \<le> k \<and> k < int (card (set vs))}"
    proof
      assume "k \<in> ran (Vertices_map s)"
      then obtain v where v: "Vertices_map s v = Some k"
        by (auto simp: ran_def)
      then have "v \<in> set ?L"
        using dm by (auto simp: first_encounter_set)
      then obtain i where i: "i < length ?L" "?L ! i = v"
        by (auto simp: in_set_conv_nth)
      from pos [OF i(1)] i(2) v have "k = int i"
        by simp
      with i(1) show "k \<in> {k. 0 \<le> k \<and> k < int (card (set vs))}"
        by (simp add: first_encounter_length)
    next
      assume "k \<in> {k. 0 \<le> k \<and> k < int (card (set vs))}"
      then have k: "nat k < length ?L" "int (nat k) = k"
        unfolding first_encounter_length by auto
      from pos [OF k(1)] k(2) show "k \<in> ran (Vertices_map s)"
        by (auto simp: ran_def)
    qed
  qed
  have pos': "\<forall>i < length ?L.
            Vertices_map s (?L ! i) = Some (int i)
          \<and> make_assoc_property_map (Vertices_map s) (?L ! i) = int i"
    by (simp add: pos make_assoc_property_map_def)
  have idx': "Vertices_index s = int (card (set vs))"
    by (simp add: idx first_encounter_length)
  have keep: "\<forall>s0 vd k. Vertices_map s0 vd = Some k \<longrightarrow>
            Vertices_visit s0 vd = s0
          \<and> (\<forall>vds. Vertices_map (foldl Vertices_visit s0 vds) vd = Some k)"
    by (simp add: Vertices_visit_known foldl_Vertices_visit_keeps)
  from entry comp first_encounter_distinct [of vs] first_encounter_set [of vs] dm pos' idx'
    inj rn keep
  show ?thesis
    by blast
qed


theorem Vertices_index_map_witness:
  "Vertices_map (output_faces example_mesh Map.empty
       (component_faces example_component example_mesh 9)) 2 = Some 0
   \<and> Vertices_map (output_faces example_mesh Map.empty
       (component_faces example_component example_mesh 9)) 0 = Some 1
   \<and> Vertices_map (output_faces example_mesh Map.empty
       (component_faces example_component example_mesh 9)) 1 = Some 2
   \<and> Vertices_map (output_faces example_mesh Map.empty
       (component_faces example_component example_mesh 9)) 3 = Some 3
   \<and> Vertices_map (output_faces example_mesh Map.empty
       (component_faces example_component example_mesh 9)) 4 = None
   \<and> Vertices_index (output_faces example_mesh Map.empty
       (component_faces example_component example_mesh 9)) = 4"
proof -
  let ?vs = "concat (map (\<lambda>fd. vertices_around_face example_mesh (halfedge example_mesh fd))
                      (component_faces example_component example_mesh 9))"
  let ?s = "output_faces example_mesh Map.empty (component_faces example_component example_mesh 9)"
  have vs: "?vs = [2, 0, 1, 1, 0, 3]"
    by (simp add: example_component_faces example_around)
  have L: "first_encounter ?vs = [2, 0, 1, 3]"
    unfolding vs by (simp add: first_encounter_def)
  note t = Vertices_index_map [where mesh = example_mesh and cc = example_component
      and bhd = 9 and parameterizer = "\<lambda>mesh bhd uvm vimap vpm. vimap"
      and uvm = example_uvmap, OF refl refl]
  from t have pos: "\<forall>i < length (first_encounter ?vs).
      Vertices_map ?s (first_encounter ?vs ! i) = Some (int i)"
    by blast
  from t have dm: "dom (Vertices_map ?s) = set ?vs"
    by blast
  from t have idx: "Vertices_index ?s = int (card (set ?vs))"
    by blast
  have "4 \<notin> dom (Vertices_map ?s)"
    unfolding dm vs by simp
  then have none: "Vertices_map ?s 4 = None"
    by (simp add: domIff)
  have card: "card (set ?vs) = 4"
    using first_encounter_length [of ?vs] unfolding L by simp
  from pos [unfolded L, THEN spec, of 0] pos [unfolded L, THEN spec, of 1]
    pos [unfolded L, THEN spec, of 2] pos [unfolded L, THEN spec, of 3] none idx card
  show ?thesis
    by simp
qed

lemma initialized_system_locked:
  "variable_locked (initialized_system mesh uvmap vimap vpmap) k \<longleftrightarrow>
     (\<exists>w \<in> set (vertices mesh).
         get_Bool vpmap w \<and> (k = slot_u (vimap w) \<or> k = slot_v (vimap w)))"
  by (simp add: initialized_system_def begin_system_def initialize_system_from_mesh_border_def
      initialize_locked set_least_squares_def construct_solver_def)

lemma assembled_system_locked:
  "variable_locked (assembled_system cc mesh bhd uvmap vimap vpmap) k \<longleftrightarrow>
     (\<exists>w \<in> set (vertices mesh).
         get_Bool vpmap w \<and> (k = slot_u (vimap w) \<or> k = slot_v (vimap w)))"
  by (simp add: assembled_system_def end_system_def with_rows_fields initialized_system_locked)

text \<open>
  Claim C9. The entry point hands the parameterizer a pinned-flag map on the empty set:
  every vertex reads as not pinned when the parameterizer is invoked. With the LSCM
  parameterizer, the pinned-flag map after the call is the one that the border
  parameterizer made of the empty map in that call, and every unknown that is locked in
  the system is one of the two slots of a vertex of the mesh that the border
  parameterizer pinned.
\<close>

theorem parameterize_pinned_flags:
  assumes "parameterize_border mesh bhd uvm (Bool_property_map {}) = (st, uv1, vp1)"
    and "vimap = make_assoc_property_map
           (Vertices_map (output_faces mesh Map.empty (component_faces cc mesh bhd)))"
  shows "parameterize cc parameterizer mesh bhd uvm =
           parameterizer mesh bhd uvm vimap (Bool_property_map {})
      \<and> (\<forall>v. \<not> get_Bool (Bool_property_map {}) v)
      \<and> (\<exists>r. parameterize cc (LSCM_parameterize parameterize_border cc backend) mesh bhd uvm
                = Inr r
             \<and> vpmap_after r = vp1
             \<and> (\<forall>s k. solver_after r = Some s \<and> variable_locked s k \<longrightarrow>
                   (\<exists>w \<in> set (vertices mesh).
                       get_Bool vp1 w \<and> (k = 2 * vimap w \<or> k = 2 * vimap w + 1))))"
proof -
  have entry: "parameterize cc p mesh bhd uvm = p mesh bhd uvm vimap (Bool_property_map {})"
    for p :: "TriangleMesh \<Rightarrow> halfedge_descriptor \<Rightarrow> VertexUVmap \<Rightarrow> VertexIndexMap \<Rightarrow>
      Bool_property_map \<Rightarrow> 'b"
    by (simp add: parameterize_def assms(2) component_faces_def)
  have unpinned: "\<forall>v. \<not> get_Bool (Bool_property_map {}) v"
    by (simp add: get_Bool_def)
  have member: "\<exists>r. LSCM_parameterize parameterize_border cc backend mesh bhd uvm vimap
                  (Bool_property_map {}) = Inr r
             \<and> vpmap_after r = vp1
             \<and> (\<forall>s k. solver_after r = Some s \<and> variable_locked s k \<longrightarrow>
                   (\<exists>w \<in> set (vertices mesh).
                       get_Bool vp1 w \<and> (k = 2 * vimap w \<or> k = 2 * vimap w + 1)))"
    by (simp add: LSCM_parameterize_eq assms(1) solve_fields assembled_system_locked
        slot_u_def slot_v_def)
  from entry [of parameterizer] entry [of "LSCM_parameterize parameterize_border cc backend"]
    unpinned member
  show ?thesis
    by simp
qed

theorem parameterize_pinned_flags_witness:
  "(\<forall>v. \<not> get_Bool (Bool_property_map {}) v)
   \<and> (\<exists>r. parameterize example_component
             (LSCM_parameterize two_vertices_border example_component counting_backend)
             example_mesh 9 example_uvmap = Inr r
          \<and> vpmap_after r = Bool_property_map {0, 2})"
  using parameterize_pinned_flags [where parameterize_border = two_vertices_border
      and mesh = example_mesh and bhd = 9 and uvm = example_uvmap and cc = example_component
      and backend = counting_backend
      and parameterizer = "LSCM_parameterize two_vertices_border example_component counting_backend",
      OF example_borders(2) refl]
  by blast

end
